theory Spec2Isabelle
  imports Main "HOL-Library.Multiset"
begin

section \<open>Common model of a route handler\<close>

text \<open>
  Every route handler of the application is an async function whose whole body sits in one
  \<^verbatim>\<open>try { ... } catch (error) { ... }\<close>. A value thrown inside the block is
  either an instance of \<^verbatim>\<open>Error\<close> carrying a message, or some other value (the
  catch blocks test \<^verbatim>\<open>error instanceof Error\<close>).
\<close>

datatype exn = Error string | NonError

text \<open>
  \<^verbatim>\<open>const { data: { user }, error: authError } = await supabase.auth.getUser()\<close>:
  the user id when a session exists, and whether an authentication error was reported.
\<close>

record auth_result =
  auth_user :: "string option"
  auth_error :: bool

text \<open>The guard \<^verbatim>\<open>if (!user || authError) return ...\<close>: the id of the
  user when the request passes it, \<open>None\<close> when the handler answers at the guard.\<close>

definition authenticate :: "auth_result \<Rightarrow> string option" where
  "authenticate a =
    (case auth_user a of
       None \<Rightarrow> None
     | Some uid \<Rightarrow> if auth_error a then None else Some uid)"

text \<open>JavaScript truthiness of an optional string: \<^verbatim>\<open>null\<close>, \<^verbatim>\<open>undefined\<close>
  and the empty string are falsy.\<close>

definition truthy :: "string option \<Rightarrow> bool" where
  "truthy s = (case s of None \<Rightarrow> False | Some v \<Rightarrow> v \<noteq> [])"

text \<open>\<^verbatim>\<open>error instanceof Error ? error.message : fallback\<close>\<close>

definition message_of :: "string \<Rightarrow> exn \<Rightarrow> string" where
  "message_of fallback e = (case e of Error m \<Rightarrow> m | NonError \<Rightarrow> fallback)"

section \<open>Email templates: GET /api/gmail/templates\<close>

record preset =
  preset_name :: string
  preset_prompt :: string
  preset_sort_order :: int

definition PRESET_TEMPLATES :: "preset list" where
  "PRESET_TEMPLATES =
    [\<lparr>preset_name = ''Introduction'',
      preset_prompt = ''Write a professional introduction email. Introduce yourself, mention any shared connections or interests, and express interest in connecting.'',
      preset_sort_order = 0\<rparr>,
     \<lparr>preset_name = ''Follow-up after meeting'',
      preset_prompt = ''Write a follow-up email after a recent meeting. Reference specific topics discussed, express appreciation for their time, and suggest next steps.'',
      preset_sort_order = 1\<rparr>,
     \<lparr>preset_name = ''Thank you'',
      preset_prompt = ''Write a thoughtful thank-you email. Be specific about what you're grateful for and mention any impact it had.'',
      preset_sort_order = 2\<rparr>,
     \<lparr>preset_name = ''Networking request'',
      preset_prompt = ''Write an email requesting a networking conversation. Be respectful of their time, mention why you'd like to connect, and suggest a brief call or coffee.'',
      preset_sort_order = 3\<rparr>,
     \<lparr>preset_name = ''Informational interview'',
      preset_prompt = ''Write an email requesting an informational interview. Show genuine interest in their career path, mention specific aspects of their work that interest you, and propose a short 20-minute call.'',
      preset_sort_order = 4\<rparr>,
     \<lparr>preset_name = ''Check-in'',
      preset_prompt = ''Write a casual check-in email. Keep it warm and personal, reference your last interaction, and show genuine interest in how they're doing.'',
      preset_sort_order = 5\<rparr>]"

text \<open>A row of the table \<^verbatim>\<open>public.email_templates\<close> (the two timestamp columns are
  left out: the handler neither reads nor orders by them).\<close>

record email_template =
  tpl_id :: int
  tpl_user_id :: string
  tpl_name :: string
  tpl_prompt :: string
  tpl_is_default :: bool
  tpl_sort_order :: int

text \<open>The JSON body \<^verbatim>\<open>{ templates, presets }\<close> with the HTTP status of the response.
  \<^verbatim>\<open>NextResponse.json(body)\<close> without an init argument answers 200.\<close>

record templates_response =
  tr_status :: nat
  tr_templates :: "email_template list"
  tr_presets :: "preset list"

text \<open>
  What the outside world does during one request: creating the server client and asking for
  the user (may throw), creating the service client (throws when the service key is missing),
  and the errors the storage layer reports for the first and the second statement the
  handler issues, if any. The storage client does not throw: it reports a failure in the
  \<^verbatim>\<open>error\<close> field of its result and leaves the table as it was.
\<close>

record world =
  w_auth :: "exn + auth_result"
  w_service :: "exn option"
  w_db_error :: "exn option"
  w_db_error2 :: "exn option"

text \<open>\<^verbatim>\<open>.from("email_templates").select("*").eq("user_id", uid).order("sort_order", { ascending: true })\<close>\<close>

definition select_templates :: "email_template list \<Rightarrow> string \<Rightarrow> email_template list" where
  "select_templates tbl uid = sort_key tpl_sort_order (filter (\<lambda>t. tpl_user_id t = uid) tbl)"

definition templates_fallback :: templates_response where
  "templates_fallback = \<lparr>tr_status = 200, tr_templates = [], tr_presets = PRESET_TEMPLATES\<rparr>"

text \<open>The body of the \<^verbatim>\<open>try\<close> block: \<open>Inl\<close> is a thrown value.\<close>

definition templates_GET_try :: "world \<Rightarrow> email_template list \<Rightarrow> exn + templates_response" where
  "templates_GET_try w tbl =
    (case w_auth w of
       Inl e \<Rightarrow> Inl e
     | Inr a \<Rightarrow>
        (case authenticate a of
           None \<Rightarrow> Inr templates_fallback
         | Some uid \<Rightarrow>
            (case w_service w of
               Some e \<Rightarrow> Inl e
             | None \<Rightarrow>
                (case w_db_error w of
                   Some e \<Rightarrow> Inl e
                 | None \<Rightarrow>
                    Inr \<lparr>tr_status = 200,
                         tr_templates = select_templates tbl uid,
                         tr_presets = PRESET_TEMPLATES\<rparr>))))"

text \<open>The handler: the \<^verbatim>\<open>catch\<close> block answers with the presets alone.\<close>

definition templates_GET :: "world \<Rightarrow> email_template list \<Rightarrow> templates_response" where
  "templates_GET w tbl =
    (case templates_GET_try w tbl of
       Inr r \<Rightarrow> r
     | Inl e \<Rightarrow> templates_fallback)"

text \<open>The requests on which nothing fails: the user the storage query runs for.\<close>

definition templates_user :: "world \<Rightarrow> string option" where
  "templates_user w =
     (case w_auth w of
        Inl e \<Rightarrow> None
      | Inr a \<Rightarrow> if w_service w = None \<and> w_db_error w = None then authenticate a else None)"

section \<open>The calendar cache\<close>

text \<open>Instants are milliseconds since the epoch, as \<^verbatim>\<open>Date.getTime()\<close> gives them.\<close>

type_synonym timestamp = int

record attendee =
  att_email :: string
  att_name :: string
  att_responseStatus :: string

text \<open>A row of the table \<^verbatim>\<open>calendar_events\<close>: the columns the handlers write and the
  calendar page reads.\<close>

record calendar_event =
  ev_id :: int
  user_id :: string
  google_event_id :: string
  calendar_id :: string
  title :: "string option"
  description :: "string option"
  start_at :: timestamp
  end_at :: timestamp
  all_day :: bool
  location :: "string option"
  meet_link :: "string option"
  status :: string
  is_private :: bool
  recurring_event_id :: "string option"
  attendees :: "attendee list"
  source_gmail_thread_id :: "string option"
  source_gmail_message_id :: "string option"
  synced_at :: timestamp

text \<open>A row of the table \<^verbatim>\<open>meetings\<close>: the columns the create handler touches.\<close>

record meeting =
  m_id :: int
  m_user_id :: string
  m_calendar_event_id :: "string option"
  m_meet_link :: "string option"

text \<open>The JSON body of a response of the calendar routes, and the response.\<close>

datatype payload =
    ErrorBody string
  | SuccessBody
  | CreatedBody string "string option"
  | EventsBody "calendar_event list"

record response =
  status_code :: nat
  payload :: payload

text \<open>What a mutating handler leaves behind: its response, the two tables, and the lines
  it wrote with \<^verbatim>\<open>console.error\<close>.\<close>

record outcome =
  out_response :: response
  out_events :: "calendar_event list"
  out_meetings :: "meeting list"
  out_log :: "string list"

text \<open>\<^verbatim>\<open>new Date(s).toISOString()\<close>: a string that \<^verbatim>\<open>Date\<close> cannot parse
  gives an invalid date, on which \<^verbatim>\<open>toISOString\<close> throws a \<^verbatim>\<open>RangeError\<close>.
  The parser of \<^verbatim>\<open>Date\<close> is a parameter.\<close>

definition toISOString :: "(string \<Rightarrow> timestamp option) \<Rightarrow> string \<Rightarrow> exn + timestamp" where
  "toISOString date_parse s =
     (case date_parse s of
        None \<Rightarrow> Inl (Error ''Invalid time value'')
      | Some t \<Rightarrow> Inr t)"

subsection \<open>GET /api/calendar/events\<close>

text \<open>
  One bound of the range: the filter is added only for a truthy parameter
  (\<^verbatim>\<open>if (start) query = query.gte("start_at", start)\<close>). The database reads the
  parameter as a \<^verbatim>\<open>timestamptz\<close>; its input function is a parameter of the model, and
  a string it rejects makes the statement fail.
\<close>

definition range_bound :: "(string \<Rightarrow> exn + timestamp) \<Rightarrow> string option \<Rightarrow> exn + timestamp option" where
  "range_bound pg_time p =
     (if truthy p
      then (case p of
              None \<Rightarrow> Inr None
            | Some s \<Rightarrow> (case pg_time s of Inl e \<Rightarrow> Inl e | Inr t \<Rightarrow> Inr (Some t)))
      else Inr None)"

definition in_range :: "timestamp option \<Rightarrow> timestamp option \<Rightarrow> calendar_event \<Rightarrow> bool" where
  "in_range lo hi r =
     ((case lo of None \<Rightarrow> True | Some t \<Rightarrow> t \<le> start_at r)
      \<and> (case hi of None \<Rightarrow> True | Some t \<Rightarrow> start_at r \<le> t))"

text \<open>\<^verbatim>\<open>.from("calendar_events").select("*").eq("user_id", uid).order("start_at", { ascending: true })\<close>
  with the optional \<^verbatim>\<open>.gte("start_at", start)\<close> and \<^verbatim>\<open>.lte("start_at", end)\<close>.\<close>

definition select_events ::
  "(string \<Rightarrow> exn + timestamp) \<Rightarrow> calendar_event list \<Rightarrow> string \<Rightarrow> string option \<Rightarrow> string option
     \<Rightarrow> exn + calendar_event list" where
  "select_events pg_time tbl uid start end =
     (case range_bound pg_time start of
        Inl e \<Rightarrow> Inl e
      | Inr lo \<Rightarrow>
         (case range_bound pg_time end of
            Inl e \<Rightarrow> Inl e
          | Inr hi \<Rightarrow>
             Inr (sort_key start_at (filter (\<lambda>r. user_id r = uid \<and> in_range lo hi r) tbl))))"

definition events_GET_try ::
  "world \<Rightarrow> (string \<Rightarrow> exn + timestamp) \<Rightarrow> string option \<Rightarrow> string option
     \<Rightarrow> calendar_event list \<Rightarrow> exn + response" where
  "events_GET_try w pg_time start end tbl =
    (case w_auth w of
       Inl e \<Rightarrow> Inl e
     | Inr a \<Rightarrow>
        (case authenticate a of
           None \<Rightarrow> Inr \<lparr>status_code = 401, payload = ErrorBody ''Unauthorized''\<rparr>
         | Some uid \<Rightarrow>
            (case w_service w of
               Some e \<Rightarrow> Inl e
             | None \<Rightarrow>
                (case w_db_error w of
                   Some e \<Rightarrow> Inl e
                 | None \<Rightarrow>
                    (case select_events pg_time tbl uid start end of
                       Inl e \<Rightarrow> Inl e
                     | Inr rows \<Rightarrow> Inr \<lparr>status_code = 200, payload = EventsBody rows\<rparr>)))))"

definition events_GET ::
  "world \<Rightarrow> (string \<Rightarrow> exn + timestamp) \<Rightarrow> string option \<Rightarrow> string option
     \<Rightarrow> calendar_event list \<Rightarrow> response" where
  "events_GET w pg_time start end tbl =
    (case events_GET_try w pg_time start end tbl of
       Inr r \<Rightarrow> r
     | Inl e \<Rightarrow> \<lparr>status_code = 500, payload = ErrorBody (message_of ''Failed to fetch events'' e)\<rparr>)"

subsection \<open>PATCH /api/calendar/events/[googleEventId]\<close>

record patch_body =
  pb_summary :: "string option"
  pb_description :: "string option"
  pb_startTime :: "string option"
  pb_endTime :: "string option"

text \<open>The object \<^verbatim>\<open>update\<close>: \<^verbatim>\<open>synced_at\<close> always, each other column only when
  the guard of its assignment holds.\<close>

record event_update =
  up_synced_at :: timestamp
  up_title :: "string option"
  up_description :: "string option"
  up_start_at :: "timestamp option"
  up_end_at :: "timestamp option"

definition optional_time ::
  "(string \<Rightarrow> timestamp option) \<Rightarrow> string option \<Rightarrow> exn + timestamp option" where
  "optional_time date_parse p =
     (if truthy p
      then (case p of
              None \<Rightarrow> Inr None
            | Some s \<Rightarrow> (case toISOString date_parse s of Inl e \<Rightarrow> Inl e | Inr t \<Rightarrow> Inr (Some t)))
      else Inr None)"

definition build_update ::
  "(string \<Rightarrow> timestamp option) \<Rightarrow> timestamp \<Rightarrow> patch_body \<Rightarrow> exn + event_update" where
  "build_update date_parse now b =
     (case optional_time date_parse (pb_startTime b) of
        Inl e \<Rightarrow> Inl e
      | Inr s \<Rightarrow>
         (case optional_time date_parse (pb_endTime b) of
            Inl e \<Rightarrow> Inl e
          | Inr e \<Rightarrow>
             Inr \<lparr>up_synced_at = now,
                  up_title = (if truthy (pb_summary b) then pb_summary b else None),
                  up_description = pb_description b,
                  up_start_at = s,
                  up_end_at = e\<rparr>))"

definition apply_update :: "event_update \<Rightarrow> calendar_event \<Rightarrow> calendar_event" where
  "apply_update u r =
     r\<lparr>synced_at := up_synced_at u,
       title := (case up_title u of None \<Rightarrow> title r | Some t \<Rightarrow> Some t),
       description := (case up_description u of None \<Rightarrow> description r | Some d \<Rightarrow> Some d),
       start_at := (case up_start_at u of None \<Rightarrow> start_at r | Some t \<Rightarrow> t),
       end_at := (case up_end_at u of None \<Rightarrow> end_at r | Some t \<Rightarrow> t)\<rparr>"

text \<open>\<^verbatim>\<open>.eq("google_event_id", googleEventId).eq("user_id", user.id)\<close>\<close>

definition targets :: "string \<Rightarrow> string \<Rightarrow> calendar_event \<Rightarrow> bool" where
  "targets uid gid r = (google_event_id r = gid \<and> user_id r = uid)"

definition update_events ::
  "string \<Rightarrow> string \<Rightarrow> event_update \<Rightarrow> calendar_event list \<Rightarrow> calendar_event list" where
  "update_events uid gid u tbl = map (\<lambda>r. if targets uid gid r then apply_update u r else r) tbl"

definition delete_events :: "string \<Rightarrow> string \<Rightarrow> calendar_event list \<Rightarrow> calendar_event list" where
  "delete_events uid gid tbl = filter (\<lambda>r. \<not> targets uid gid r) tbl"

text \<open>
  The \<^verbatim>\<open>try\<close> block of PATCH. \<open>remote\<close> is \<^verbatim>\<open>updateCalendarEvent\<close> of
  \<^verbatim>\<open>@/lib/calendar\<close>, the call to the remote calendar: it returns or throws. The result
  of the storage statement is awaited and dropped, so a reported error changes nothing in
  what the handler does next. The block gives the response and the table, or a thrown value.
\<close>

definition PATCH_try ::
  "world \<Rightarrow> (string \<Rightarrow> string \<Rightarrow> patch_body \<Rightarrow> exn option) \<Rightarrow> (string \<Rightarrow> timestamp option)
     \<Rightarrow> timestamp \<Rightarrow> string \<Rightarrow> exn + patch_body \<Rightarrow> calendar_event list
     \<Rightarrow> exn + response \<times> calendar_event list" where
  "PATCH_try w remote date_parse now gid body tbl =
    (case w_auth w of
       Inl e \<Rightarrow> Inl e
     | Inr a \<Rightarrow>
        (case authenticate a of
           None \<Rightarrow> Inr (\<lparr>status_code = 401, payload = ErrorBody ''Unauthorized''\<rparr>, tbl)
         | Some uid \<Rightarrow>
            (case body of
               Inl e \<Rightarrow> Inl e
             | Inr b \<Rightarrow>
                (case remote uid gid b of
                   Some e \<Rightarrow> Inl e
                 | None \<Rightarrow>
                    (case w_service w of
                       Some e \<Rightarrow> Inl e
                     | None \<Rightarrow>
                        (case build_update date_parse now b of
                           Inl e \<Rightarrow> Inl e
                         | Inr u \<Rightarrow>
                            Inr (\<lparr>status_code = 200, payload = SuccessBody\<rparr>,
                                 (case w_db_error w of
                                    Some e \<Rightarrow> tbl
                                  | None \<Rightarrow> update_events uid gid u tbl))))))))"

definition PATCH ::
  "world \<Rightarrow> (string \<Rightarrow> string \<Rightarrow> patch_body \<Rightarrow> exn option) \<Rightarrow> (string \<Rightarrow> timestamp option)
     \<Rightarrow> timestamp \<Rightarrow> string \<Rightarrow> exn + patch_body \<Rightarrow> calendar_event list \<Rightarrow> meeting list
     \<Rightarrow> outcome" where
  "PATCH w remote date_parse now gid body tbl ms =
    (case PATCH_try w remote date_parse now gid body tbl of
       Inr (r, tbl') \<Rightarrow>
         \<lparr>out_response = r, out_events = tbl', out_meetings = ms, out_log = []\<rparr>
     | Inl e \<Rightarrow>
         \<lparr>out_response = \<lparr>status_code = 500,
                           payload = ErrorBody (message_of ''Failed to update event'' e)\<rparr>,
          out_events = tbl, out_meetings = ms,
          out_log = [''Update calendar event error:'']\<rparr>)"

subsection \<open>DELETE /api/calendar/events/[googleEventId]\<close>

definition DELETE_try ::
  "world \<Rightarrow> (string \<Rightarrow> string \<Rightarrow> exn option) \<Rightarrow> string \<Rightarrow> calendar_event list
     \<Rightarrow> exn + response \<times> calendar_event list" where
  "DELETE_try w remote gid tbl =
    (case w_auth w of
       Inl e \<Rightarrow> Inl e
     | Inr a \<Rightarrow>
        (case authenticate a of
           None \<Rightarrow> Inr (\<lparr>status_code = 401, payload = ErrorBody ''Unauthorized''\<rparr>, tbl)
         | Some uid \<Rightarrow>
            (case remote uid gid of
               Some e \<Rightarrow> Inl e
             | None \<Rightarrow>
                (case w_service w of
                   Some e \<Rightarrow> Inl e
                 | None \<Rightarrow>
                    Inr (\<lparr>status_code = 200, payload = SuccessBody\<rparr>,
                         (case w_db_error w of
                            Some e \<Rightarrow> tbl
                          | None \<Rightarrow> delete_events uid gid tbl))))))"

definition DELETE ::
  "world \<Rightarrow> (string \<Rightarrow> string \<Rightarrow> exn option) \<Rightarrow> string \<Rightarrow> calendar_event list \<Rightarrow> meeting list
     \<Rightarrow> outcome" where
  "DELETE w remote gid tbl ms =
    (case DELETE_try w remote gid tbl of
       Inr (r, tbl') \<Rightarrow>
         \<lparr>out_response = r, out_events = tbl', out_meetings = ms, out_log = []\<rparr>
     | Inl e \<Rightarrow>
         \<lparr>out_response = \<lparr>status_code = 500,
                           payload = ErrorBody (message_of ''Failed to delete event'' e)\<rparr>,
          out_events = tbl, out_meetings = ms,
          out_log = [''Delete calendar event error:'']\<rparr>)"

subsection \<open>POST /api/calendar/create-event\<close>

record create_body =
  cb_summary :: "string option"
  cb_description :: "string option"
  cb_startTime :: "string option"
  cb_endTime :: "string option"
  cb_attendeeEmails :: "string list option"
  cb_conferenceType :: "string option"
  cb_meetingId :: "int option"
  cb_sourceThreadId :: "string option"
  cb_sourceMessageId :: "string option"

text \<open>The argument and the result of \<^verbatim>\<open>createCalendarEvent\<close> of
  \<^verbatim>\<open>@/lib/calendar\<close>, the call to the remote calendar.\<close>

record event_input =
  in_summary :: string
  in_description :: "string option"
  in_startTime :: string
  in_endTime :: string
  in_attendeeEmails :: "string list option"
  in_conferenceType :: string

record remote_result =
  googleEventId :: string
  meetLink :: "string option"

text \<open>\<^verbatim>\<open>x || null\<close> and \<^verbatim>\<open>x || "none"\<close> on an optional string.\<close>

definition or_null :: "string option \<Rightarrow> string option" where
  "or_null s = (if truthy s then s else None)"

definition or_else :: "string option \<Rightarrow> string \<Rightarrow> string" where
  "or_else s d = (case s of None \<Rightarrow> d | Some v \<Rightarrow> if v = [] then d else v)"

text \<open>The guard \<^verbatim>\<open>if (!summary || !startTime || !endTime)\<close>: the three fields when
  all are truthy.\<close>

definition required_fields :: "create_body \<Rightarrow> (string \<times> string \<times> string) option" where
  "required_fields b =
     (case cb_summary b of
        None \<Rightarrow> None
      | Some s \<Rightarrow>
         (case cb_startTime b of
            None \<Rightarrow> None
          | Some st \<Rightarrow>
             (case cb_endTime b of
                None \<Rightarrow> None
              | Some en \<Rightarrow> if s = [] \<or> st = [] \<or> en = [] then None else Some (s, st, en))))"

text \<open>\<^verbatim>\<open>attendeeEmails?.map((email) => ({ email, name: email, responseStatus: "needsAction" })) || []\<close>\<close>

definition attendees_of :: "string list option \<Rightarrow> attendee list" where
  "attendees_of es =
     (case es of
        None \<Rightarrow> []
      | Some l \<Rightarrow> map (\<lambda>e. \<lparr>att_email = e, att_name = e, att_responseStatus = ''needsAction''\<rparr>) l)"

text \<open>The row handed to \<^verbatim>\<open>insert\<close>. The columns the handler does not name take the
  defaults of the table, whose declaration is not among the sources: \<open>dflt\<close> holds them.\<close>

definition new_row ::
  "calendar_event \<Rightarrow> string \<Rightarrow> create_body \<Rightarrow> string \<Rightarrow> remote_result \<Rightarrow> timestamp \<Rightarrow> timestamp
     \<Rightarrow> calendar_event" where
  "new_row dflt uid b summary result s e =
     dflt\<lparr>user_id := uid,
          google_event_id := googleEventId result,
          calendar_id := ''primary'',
          title := Some summary,
          description := or_null (cb_description b),
          start_at := s,
          end_at := e,
          all_day := False,
          meet_link := meetLink result,
          status := ''confirmed'',
          attendees := attendees_of (cb_attendeeEmails b),
          source_gmail_thread_id := or_null (cb_sourceThreadId b),
          source_gmail_message_id := or_null (cb_sourceMessageId b)\<rparr>"

text \<open>\<^verbatim>\<open>.from("meetings").update({ calendar_event_id, meet_link }).eq("id", meetingId).eq("user_id", user.id)\<close>\<close>

definition link_meeting :: "string \<Rightarrow> int \<Rightarrow> remote_result \<Rightarrow> meeting list \<Rightarrow> meeting list" where
  "link_meeting uid mid result ms =
     map (\<lambda>m. if m_id m = mid \<and> m_user_id m = uid
               then m\<lparr>m_calendar_event_id := Some (googleEventId result),
                      m_meet_link := meetLink result\<rparr>
               else m) ms"

text \<open>\<^verbatim>\<open>if (meetingId)\<close> on an optional number: zero is falsy.\<close>

definition truthy_id :: "int option \<Rightarrow> bool" where
  "truthy_id i = (case i of None \<Rightarrow> False | Some n \<Rightarrow> n \<noteq> 0)"

text \<open>The second argument of \<^verbatim>\<open>createCalendarEvent\<close>.\<close>

definition event_input_of :: "create_body \<Rightarrow> string \<Rightarrow> string \<Rightarrow> string \<Rightarrow> event_input" where
  "event_input_of b summary startTime endTime =
     \<lparr>in_summary = summary,
      in_description = cb_description b,
      in_startTime = startTime,
      in_endTime = endTime,
      in_attendeeEmails = cb_attendeeEmails b,
      in_conferenceType = or_else (cb_conferenceType b) ''none''\<rparr>"

text \<open>
  The \<^verbatim>\<open>try\<close> block of POST: the response, the two tables and the lines logged, or a
  thrown value. \<open>remote\<close> is \<^verbatim>\<open>createCalendarEvent\<close>. The error of the insert is
  read (\<^verbatim>\<open>cacheErr\<close>) and logged; the result of the update of \<^verbatim>\<open>meetings\<close> is
  dropped.
\<close>

definition POST_try ::
  "world \<Rightarrow> (string \<Rightarrow> event_input \<Rightarrow> exn + remote_result) \<Rightarrow> (string \<Rightarrow> timestamp option)
     \<Rightarrow> calendar_event \<Rightarrow> exn + create_body \<Rightarrow> calendar_event list \<Rightarrow> meeting list
     \<Rightarrow> exn + outcome" where
  "POST_try w remote date_parse dflt body tbl ms =
    (case w_auth w of
       Inl e \<Rightarrow> Inl e
     | Inr a \<Rightarrow>
    (case authenticate a of
       None \<Rightarrow>
         Inr \<lparr>out_response = \<lparr>status_code = 401, payload = ErrorBody ''Unauthorized''\<rparr>,
              out_events = tbl, out_meetings = ms, out_log = []\<rparr>
     | Some uid \<Rightarrow>
    (case body of
       Inl e \<Rightarrow> Inl e
     | Inr b \<Rightarrow>
    (case required_fields b of
       None \<Rightarrow>
         Inr \<lparr>out_response =
                \<lparr>status_code = 400,
                 payload = ErrorBody ''Missing required fields: summary, startTime, endTime''\<rparr>,
              out_events = tbl, out_meetings = ms, out_log = []\<rparr>
     | Some (summary, startTime, endTime) \<Rightarrow>
    (case remote uid (event_input_of b summary startTime endTime) of
       Inl e \<Rightarrow> Inl e
     | Inr result \<Rightarrow>
    (case w_service w of
       Some e \<Rightarrow> Inl e
     | None \<Rightarrow>
    (case toISOString date_parse startTime of
       Inl e \<Rightarrow> Inl e
     | Inr s \<Rightarrow>
    (case toISOString date_parse endTime of
       Inl e \<Rightarrow> Inl e
     | Inr en \<Rightarrow>
         Inr \<lparr>out_response =
                \<lparr>status_code = 200,
                 payload = CreatedBody (googleEventId result) (meetLink result)\<rparr>,
              out_events =
                (case w_db_error w of
                   Some e \<Rightarrow> tbl
                 | None \<Rightarrow> tbl @ [new_row dflt uid b summary result s en]),
              out_meetings =
                (if truthy_id (cb_meetingId b)
                 then (case w_db_error2 w of
                         Some e \<Rightarrow> ms
                       | None \<Rightarrow>
                          (case cb_meetingId b of
                             None \<Rightarrow> ms
                           | Some mid \<Rightarrow> link_meeting uid mid result ms))
                 else ms),
              out_log =
                (case w_db_error w of
                   Some e \<Rightarrow> [''Error caching event:'']
                 | None \<Rightarrow> [])\<rparr>))))))))"

definition POST ::
  "world \<Rightarrow> (string \<Rightarrow> event_input \<Rightarrow> exn + remote_result) \<Rightarrow> (string \<Rightarrow> timestamp option)
     \<Rightarrow> calendar_event \<Rightarrow> exn + create_body \<Rightarrow> calendar_event list \<Rightarrow> meeting list
     \<Rightarrow> outcome" where
  "POST w remote date_parse dflt body tbl ms =
    (case POST_try w remote date_parse dflt body tbl ms of
       Inr out \<Rightarrow> out
     | Inl e \<Rightarrow>
         \<lparr>out_response = \<lparr>status_code = 500,
                           payload = ErrorBody (message_of ''Failed to create event'' e)\<rparr>,
          out_events = tbl, out_meetings = ms,
          out_log = [''Create event error:'']\<rparr>)"

section \<open>The calendar page\<close>
















section \<open>The availability calculator\<close>

text \<open>
  Modelled from the spec: the route \<^verbatim>\<open>GET /api/calendar/availability\<close> is not among
  the sources (only its caller, the availability picker, is). The definitions below follow
  section 4.2 of the specification: for each calendar day of the range that matches the
  day-of-week filter, build the working window, subtract the busy intervals (expanded by the
  buffers) that overlap it, overlapping intervals being merged first, and walk the free time
  that remains in steps of the granularity, emitting a slot only where the whole step is free.
  A busy interval is a half-open range \<open>[start, end)\<close> of instants.
\<close>

type_synonym interval = "timestamp \<times> timestamp"

text \<open>Modelled from the spec: the units of the calculator, whose route is not among the
  sources. Buffers, window and granularity are given in minutes; instants are counted in
  milliseconds.\<close>

definition MINUTE :: int where "MINUTE = 60000"
definition DAY :: int where "DAY = 1440 * MINUTE"

text \<open>Modelled from the spec: part of the availability route, which is not among the
  sources; a busy interval expanded by the buffers, given in minutes.\<close>

definition expand :: "int \<Rightarrow> int \<Rightarrow> interval \<Rightarrow> interval" where
  "expand bufferBefore bufferAfter i =
     (fst i - bufferBefore * MINUTE, snd i + bufferAfter * MINUTE)"

text \<open>Modelled from the spec: part of the availability route, which is not among the
  sources; an interval overlaps the window \<open>[ws, we)\<close> when they share
  an instant.\<close>

definition overlaps :: "timestamp \<Rightarrow> timestamp \<Rightarrow> interval \<Rightarrow> bool" where
  "overlaps ws we i = (fst i < snd i \<and> fst i < we \<and> ws < snd i)"

text \<open>Modelled from the spec: part of the availability route, which is not among the
  sources; merging, on a list ordered by start. An interval that starts
  no later than the end of the one before it is joined to it.\<close>

fun merge_sorted :: "interval list \<Rightarrow> interval list" where
  "merge_sorted [] = []"
| "merge_sorted [i] = [i]"
| "merge_sorted ((s1, e1) # (s2, e2) # rest) =
     (if s2 \<le> e1
      then merge_sorted ((s1, max e1 e2) # rest)
      else (s1, e1) # merge_sorted ((s2, e2) # rest))"

definition merge_intervals :: "interval list \<Rightarrow> interval list" where
  "merge_intervals xs = merge_sorted (sort_key fst xs)"

text \<open>Modelled from the spec: part of the availability route, which is not among the
  sources; the free windows of \<open>[ws, we)\<close>, given the merged busy
  intervals in ascending order. The cursor \<open>ws\<close> moves past each busy interval.\<close>

fun subtract :: "timestamp \<Rightarrow> timestamp \<Rightarrow> interval list \<Rightarrow> interval list" where
  "subtract ws we [] = (if ws < we then [(ws, we)] else [])"
| "subtract ws we ((s, e) # bs) =
     (if ws < min s we then [(ws, min s we)] else []) @ subtract (max ws e) we bs"

text \<open>Modelled from the spec: part of the availability route, which is not among the
  sources; the starts of the slots of length \<open>g\<close> in the free window
  from \<open>t\<close> to \<open>fe\<close>. A slot is emitted only if the whole of it lies in the window.\<close>

function walk :: "int \<Rightarrow> timestamp \<Rightarrow> timestamp \<Rightarrow> timestamp list" where
  "walk g t fe = (if 0 < g \<and> t + g \<le> fe then t # walk g (t + g) fe else [])"
  by pat_completeness auto
termination
  by (relation "measure (\<lambda>(g, t, fe). nat (fe - t))") auto

declare walk.simps [simp del]

text \<open>Modelled from the spec: part of the availability route, which is not among the
  sources; the request. The window is given in minutes after midnight,
  the granularity and the buffers in minutes; the days of the week are numbered from
  1 (Monday) to 7 (Sunday), as the picker numbers them.\<close>

record availability_request =
  rq_start :: timestamp
  rq_end :: timestamp
  rq_daysOfWeek :: "int list"
  rq_windowStart :: int
  rq_windowEnd :: int
  rq_duration :: int
  rq_bufferBefore :: int
  rq_bufferAfter :: int

text \<open>Modelled from the spec: the entry of one day in the output of the calculator, whose
  route is not among the sources: the day and the starts of its slots.\<close>

record availability_day =
  day_date :: int
  day_slots :: "timestamp list"

text \<open>Modelled from the spec: part of the availability route, which is not among the
  sources; day \<open>d\<close> is the range from \<open>d * DAY\<close> to \<open>(d + 1) * DAY\<close>;
  day 0, the first of January 1970, was a Thursday.\<close>

definition day_of_week :: "int \<Rightarrow> int" where
  "day_of_week d = (d + 3) mod 7 + 1"

text \<open>Modelled from the spec: the calendar days of the range that match the day-of-week
  filter (the route of the calculator is not among the sources).\<close>

definition days_in_range :: "availability_request \<Rightarrow> int list" where
  "days_in_range rq =
     filter (\<lambda>d. rq_start rq \<le> d * DAY \<and> d * DAY < rq_end rq \<and> day_of_week d \<in> set (rq_daysOfWeek rq))
       [rq_start rq div DAY .. rq_end rq div DAY]"

text \<open>Modelled from the spec: the working window of day \<open>d\<close> (the route of the
  calculator is not among the sources).\<close>

definition window_start :: "availability_request \<Rightarrow> int \<Rightarrow> timestamp" where
  "window_start rq d = d * DAY + rq_windowStart rq * MINUTE"

definition window_end :: "availability_request \<Rightarrow> int \<Rightarrow> timestamp" where
  "window_end rq d = d * DAY + rq_windowEnd rq * MINUTE"

text \<open>Modelled from the spec: part of the availability route, which is not among the
  sources; the busy intervals of the day, expanded, restricted to those
  that overlap the window, and merged.\<close>

definition day_busy :: "availability_request \<Rightarrow> interval list \<Rightarrow> int \<Rightarrow> interval list" where
  "day_busy rq busy d =
     merge_intervals
       (filter (overlaps (window_start rq d) (window_end rq d))
          (map (expand (rq_bufferBefore rq) (rq_bufferAfter rq)) busy))"

text \<open>Modelled from the spec: the free windows of the day and the slots walked in them
  (the route of the calculator is not among the sources).\<close>

definition day_free :: "availability_request \<Rightarrow> interval list \<Rightarrow> int \<Rightarrow> interval list" where
  "day_free rq busy d = subtract (window_start rq d) (window_end rq d) (day_busy rq busy d)"

definition day_slots_of :: "availability_request \<Rightarrow> interval list \<Rightarrow> int \<Rightarrow> timestamp list" where
  "day_slots_of rq busy d =
     concat (map (\<lambda>(a, b). walk (rq_duration rq * MINUTE) a b) (day_free rq busy d))"

text \<open>Modelled from the spec: part of the availability route, which is not among the
  sources; the output, one entry for each day of the range, also when
  the day has no slot.\<close>

definition availability :: "availability_request \<Rightarrow> interval list \<Rightarrow> availability_day list" where
  "availability rq busy =
     map (\<lambda>d. \<lparr>day_date = d, day_slots = day_slots_of rq busy d\<rparr>) (days_in_range rq)"


text \<open>An instant is covered by a list of intervals when one of them holds it; a slot of
  length \<open>g\<close> at \<open>t\<close> meets an interval when they share an instant.\<close>

definition covered :: "timestamp \<Rightarrow> interval list \<Rightarrow> bool" where
  "covered t xs = list_ex (\<lambda>i. fst i \<le> t \<and> t < snd i) xs"

definition meets :: "timestamp \<Rightarrow> int \<Rightarrow> interval \<Rightarrow> bool" where
  "meets t g i = (fst i < t + g \<and> t < snd i \<and> fst i < snd i)"

text \<open>A list of intervals in ascending order in which each interval ends before the next
  one starts.\<close>

fun separated :: "interval list \<Rightarrow> bool" where
  "separated [] = True"
| "separated [i] = True"
| "separated (i # j # rest) = (snd i < fst j \<and> separated (j # rest))"

text \<open>Interval \<open>m\<close> contains interval \<open>i\<close>.\<close>

definition contains :: "interval \<Rightarrow> interval \<Rightarrow> bool" where
  "contains m i = (fst m \<le> fst i \<and> snd i \<le> snd m)"

section \<open>The sync operation\<close>

text \<open>
  Modelled from the spec: the route \<^verbatim>\<open>POST /api/calendar/sync\<close> is not among the
  sources (only its caller, \<^verbatim>\<open>handleSync\<close> of the calendar page, is). The definitions
  below follow section 4.1 of the specification: reject with 429 inside the cooldown window;
  otherwise fetch the remote events, upsert each into the cache keyed by owner and remote id,
  store a private event with its flag set and its title and description cleared, and record
  the time of the sync. A failure of the remote calendar is one generic failure.
\<close>

text \<open>Modelled from the spec: an event as the remote calendar returns it to the sync
  route, which is not among the sources.\<close>

record remote_event =
  re_id :: string
  re_calendar_id :: string
  re_title :: "string option"
  re_description :: "string option"
  re_start :: timestamp
  re_end :: timestamp
  re_all_day :: bool
  re_location :: "string option"
  re_meet_link :: "string option"
  re_status :: string
  re_private :: bool
  re_recurring_event_id :: "string option"
  re_attendees :: "attendee list"

text \<open>Modelled from the spec: part of the sync route, which is not among the sources;
  the cache row of a remote event. The details of a private
  event are not stored.\<close>

definition cache_row :: "calendar_event \<Rightarrow> string \<Rightarrow> timestamp \<Rightarrow> remote_event \<Rightarrow> calendar_event" where
  "cache_row dflt uid now re =
     dflt\<lparr>user_id := uid,
          google_event_id := re_id re,
          calendar_id := re_calendar_id re,
          title := (if re_private re then None else re_title re),
          description := (if re_private re then None else re_description re),
          start_at := re_start re,
          end_at := re_end re,
          all_day := re_all_day re,
          location := re_location re,
          meet_link := re_meet_link re,
          status := re_status re,
          is_private := re_private re,
          recurring_event_id := re_recurring_event_id re,
          attendees := re_attendees re,
          synced_at := now\<rparr>"

text \<open>Modelled from the spec: part of the sync route, which is not among the sources;
  upsert keyed by owner and remote id. A row that exists keeps
  its id and takes the new columns; otherwise the row is added.\<close>

definition upsert :: "calendar_event \<Rightarrow> calendar_event list \<Rightarrow> calendar_event list" where
  "upsert row tbl =
     (if list_ex (targets (user_id row) (google_event_id row)) tbl
      then map (\<lambda>r. if targets (user_id row) (google_event_id row) r
                     then row\<lparr>ev_id := ev_id r\<rparr> else r) tbl
      else tbl @ [row])"

text \<open>Modelled from the spec: the state the sync route, which is not among the sources,
  reads and writes: the cache and the time of the last sync of each user.\<close>

record sync_state =
  ss_events :: "calendar_event list"
  ss_last_synced :: "string \<Rightarrow> timestamp option"

text \<open>Modelled from the spec: part of the sync route, which is not among the sources;
  the cooldown check. The length of the window is a
  parameter.\<close>

definition within_cooldown :: "int \<Rightarrow> timestamp \<Rightarrow> timestamp option \<Rightarrow> bool" where
  "within_cooldown cooldown now last_synced =
     (case last_synced of None \<Rightarrow> False | Some t \<Rightarrow> now - t < cooldown)"

text \<open>Modelled from the spec: part of the sync route, which is not among the sources;
  the handler. \<open>fetch\<close> is the call to the remote calendar.\<close>

definition sync_POST ::
  "int \<Rightarrow> world \<Rightarrow> (string \<Rightarrow> exn + remote_event list) \<Rightarrow> calendar_event \<Rightarrow> timestamp
     \<Rightarrow> sync_state \<Rightarrow> response \<times> sync_state" where
  "sync_POST cooldown w fetch dflt now st =
    (case w_auth w of
       Inl e \<Rightarrow> (\<lparr>status_code = 500, payload = ErrorBody (message_of ''Sync failed'' e)\<rparr>, st)
     | Inr a \<Rightarrow>
        (case authenticate a of
           None \<Rightarrow> (\<lparr>status_code = 401, payload = ErrorBody ''Unauthorized''\<rparr>, st)
         | Some uid \<Rightarrow>
            if within_cooldown cooldown now (ss_last_synced st uid)
            then (\<lparr>status_code = 429, payload = ErrorBody ''Synced recently''\<rparr>, st)
            else (case fetch uid of
                    Inl e \<Rightarrow>
                      (\<lparr>status_code = 500, payload = ErrorBody (message_of ''Sync failed'' e)\<rparr>, st)
                  | Inr evs \<Rightarrow>
                      (\<lparr>status_code = 200, payload = SuccessBody\<rparr>,
                       \<lparr>ss_events = foldl (\<lambda>tbl re. upsert (cache_row dflt uid now re) tbl)
                                      (ss_events st) evs,
                        ss_last_synced = (ss_last_synced st)(uid \<mapsto> now)\<rparr>))))"


subsection \<open>The caller on the calendar page\<close>

text \<open>The state of the page that \<^verbatim>\<open>loadEvents\<close> and \<^verbatim>\<open>handleSync\<close> set.\<close>

record page_state =
  ps_events :: "calendar_event list"
  ps_error :: string
  ps_loading :: bool
  ps_syncing :: bool

text \<open>\<^verbatim>\<open>loadEvents\<close>, called only when a user is signed in: the request for the
  events and the reading of its body throw, or give the field \<^verbatim>\<open>events\<close> of the
  body when it is there. The events are sorted by start.\<close>

definition loadEvents :: "exn + calendar_event list option \<Rightarrow> page_state \<Rightarrow> page_state" where
  "loadEvents res st =
     (case res of
        Inl e \<Rightarrow> st\<lparr>ps_error := ''Failed to load calendar events'', ps_loading := False\<rparr>
      | Inr None \<Rightarrow> st\<lparr>ps_loading := False\<rparr>
      | Inr (Some evs) \<Rightarrow> st\<lparr>ps_events := sort_key start_at evs, ps_loading := False\<rparr>)"

text \<open>\<^verbatim>\<open>handleSync\<close>: the request to the sync route throws or answers with a status;
  \<^verbatim>\<open>res.ok\<close> holds for the statuses from 200 to 299.\<close>

definition handleSync ::
  "exn + nat \<Rightarrow> exn + calendar_event list option \<Rightarrow> page_state \<Rightarrow> page_state" where
  "handleSync sync res st =
     (case sync of
        Inl e \<Rightarrow> st\<lparr>ps_error := ''Failed to sync calendar'', ps_syncing := False\<rparr>
      | Inr code \<Rightarrow>
          if code = 429
          then st\<lparr>ps_error := ''Synced recently, try again in a moment'', ps_syncing := False\<rparr>
          else if \<not> (200 \<le> code \<and> code \<le> 299)
          then st\<lparr>ps_error := ''Failed to sync calendar'', ps_syncing := False\<rparr>
          else (loadEvents res st)\<lparr>ps_error := '''', ps_syncing := False\<rparr>)"

section \<open>Sample data\<close>

text \<open>The user a request runs for, when it passes the guard.\<close>

definition requester :: "world \<Rightarrow> string option" where
  "requester w = (case w_auth w of Inl e \<Rightarrow> None | Inr a \<Rightarrow> authenticate a)"

text \<open>A world in which user \<open>uid\<close> is signed in and the storage layer reports \<open>err\<close> for the
  first statement; a row of the cache with the given owner, remote id, start and privacy
  flag; a parser of dates that knows two strings.\<close>

definition signed_in :: "string \<Rightarrow> exn option \<Rightarrow> world" where
  "signed_in uid err =
     \<lparr>w_auth = Inr \<lparr>auth_user = Some uid, auth_error = False\<rparr>,
      w_service = None, w_db_error = err, w_db_error2 = None\<rparr>"

definition sample_row :: "string \<Rightarrow> string \<Rightarrow> timestamp \<Rightarrow> bool \<Rightarrow> calendar_event" where
  "sample_row uid gid start private =
     \<lparr>ev_id = 1, user_id = uid, google_event_id = gid, calendar_id = ''primary'',
      title = None, description = None, start_at = start, end_at = start + 60 * MINUTE,
      all_day = False, location = None, meet_link = None, status = ''confirmed'',
      is_private = private, recurring_event_id = None, attendees = [],
      source_gmail_thread_id = None, source_gmail_message_id = None, synced_at = 0\<rparr>"

definition sample_parse :: "string \<Rightarrow> timestamp option" where
  "sample_parse s =
     (if s = ''1970-01-01T09:00:00Z'' then Some (9 * 60 * MINUTE)
      else if s = ''1970-01-01T10:00:00Z'' then Some (10 * 60 * MINUTE)
      else None)"

definition sample_pg_time :: "string \<Rightarrow> exn + timestamp" where
  "sample_pg_time s =
     (case sample_parse s of
        None \<Rightarrow> Inl (Error ''invalid input syntax for type timestamp with time zone'')
      | Some t \<Rightarrow> Inr t)"

definition sample_body :: "string option \<Rightarrow> create_body" where
  "sample_body summary =
     \<lparr>cb_summary = summary, cb_description = None,
      cb_startTime = Some ''1970-01-01T09:00:00Z'', cb_endTime = Some ''1970-01-01T10:00:00Z'',
      cb_attendeeEmails = None, cb_conferenceType = None, cb_meetingId = None,
      cb_sourceThreadId = None, cb_sourceMessageId = None\<rparr>"


section \<open>Properties of the template listing\<close>

lemma templates_GET_status: "tr_status (templates_GET w tbl) = 200"
  by (simp add: templates_GET_def templates_GET_try_def templates_fallback_def
      split: sum.splits option.splits)

lemma templates_GET_presets: "tr_presets (templates_GET w tbl) = PRESET_TEMPLATES"
  by (simp add: templates_GET_def templates_GET_try_def templates_fallback_def
      split: sum.splits option.splits)

lemma templates_GET_failure:
  "templates_user w = None \<Longrightarrow> tr_templates (templates_GET w tbl) = []"
  by (auto simp: templates_GET_def templates_GET_try_def templates_user_def
      templates_fallback_def split: sum.splits option.splits if_splits)

lemma templates_GET_success:
  "templates_user w = Some uid \<Longrightarrow>
   tr_templates (templates_GET w tbl) = select_templates tbl uid"
  by (auto simp: templates_GET_def templates_GET_try_def templates_user_def
      split: sum.splits option.splits if_splits)

lemma select_templates_sorted: "sorted (map tpl_sort_order (select_templates tbl uid))"
  by (simp add: select_templates_def)

lemma select_templates_mset:
  "mset (select_templates tbl uid) = filter_mset (\<lambda>t. tpl_user_id t = uid) (mset tbl)"
  by (simp add: select_templates_def)

text \<open>
  Claim C10. GET /api/gmail/templates never answers with an error status. For every request
  the status is 200 and the presets are the six built-in templates; when the caller is not
  authenticated, or anything throws, or the storage query reports an error, the list of
  custom templates is empty; when the query succeeds the list holds exactly the rows of the
  requesting user, in ascending order of \<open>sort_order\<close>.
\<close>

theorem templates_GET_never_fails:
  "tr_status (templates_GET w tbl) = 200
   \<and> tr_presets (templates_GET w tbl) = PRESET_TEMPLATES
   \<and> length PRESET_TEMPLATES = 6
   \<and> (templates_user w = None \<longrightarrow> tr_templates (templates_GET w tbl) = [])
   \<and> (\<forall>uid. templates_user w = Some uid \<longrightarrow>
         mset (tr_templates (templates_GET w tbl))
           = filter_mset (\<lambda>t. tpl_user_id t = uid) (mset tbl)
         \<and> sorted (map tpl_sort_order (tr_templates (templates_GET w tbl))))"
proof -
  have six: "length PRESET_TEMPLATES = 6"
    by (simp add: PRESET_TEMPLATES_def)
  have ok: "mset (tr_templates (templates_GET w tbl))
           = filter_mset (\<lambda>t. tpl_user_id t = uid) (mset tbl)
         \<and> sorted (map tpl_sort_order (tr_templates (templates_GET w tbl)))"
    if "templates_user w = Some uid" for uid
    using templates_GET_success [OF that]
    by (simp add: select_templates_sorted select_templates_mset)
  show ?thesis
    using ok six templates_GET_status [of w tbl] templates_GET_presets [of w tbl]
      templates_GET_failure [of w tbl]
    by blast
qed

theorem templates_GET_never_fails_witness:
  "templates_user \<lparr>w_auth = Inl NonError, w_service = None, w_db_error = None,
       w_db_error2 = None\<rparr> = None
   \<and> tr_templates (templates_GET \<lparr>w_auth = Inl NonError, w_service = None, w_db_error = None,
       w_db_error2 = None\<rparr>
       [\<lparr>tpl_id = 1, tpl_user_id = ''u1'', tpl_name = ''A'', tpl_prompt = ''p'',
         tpl_is_default = False, tpl_sort_order = 2\<rparr>]) = []
   \<and> templates_user \<lparr>w_auth = Inr \<lparr>auth_user = Some ''u1'', auth_error = False\<rparr>,
       w_service = None, w_db_error = None, w_db_error2 = None\<rparr> = Some ''u1''
   \<and> sorted (map tpl_sort_order (tr_templates (templates_GET
       \<lparr>w_auth = Inr \<lparr>auth_user = Some ''u1'', auth_error = False\<rparr>,
        w_service = None, w_db_error = None, w_db_error2 = None\<rparr>
       [\<lparr>tpl_id = 1, tpl_user_id = ''u1'', tpl_name = ''A'', tpl_prompt = ''p'',
         tpl_is_default = False, tpl_sort_order = 2\<rparr>,
        \<lparr>tpl_id = 2, tpl_user_id = ''u2'', tpl_name = ''B'', tpl_prompt = ''q'',
         tpl_is_default = False, tpl_sort_order = 0\<rparr>,
        \<lparr>tpl_id = 3, tpl_user_id = ''u1'', tpl_name = ''C'', tpl_prompt = ''r'',
         tpl_is_default = False, tpl_sort_order = 1\<rparr>])))"
  using templates_GET_never_fails
     [of "\<lparr>w_auth = Inl NonError, w_service = None, w_db_error = None, w_db_error2 = None\<rparr>"
         "[\<lparr>tpl_id = 1, tpl_user_id = ''u1'', tpl_name = ''A'', tpl_prompt = ''p'',
           tpl_is_default = False, tpl_sort_order = 2\<rparr>]"]
    templates_GET_never_fails
     [of "\<lparr>w_auth = Inr \<lparr>auth_user = Some ''u1'', auth_error = False\<rparr>,
           w_service = None, w_db_error = None, w_db_error2 = None\<rparr>"
         "[\<lparr>tpl_id = 1, tpl_user_id = ''u1'', tpl_name = ''A'', tpl_prompt = ''p'',
           tpl_is_default = False, tpl_sort_order = 2\<rparr>,
          \<lparr>tpl_id = 2, tpl_user_id = ''u2'', tpl_name = ''B'', tpl_prompt = ''q'',
           tpl_is_default = False, tpl_sort_order = 0\<rparr>,
          \<lparr>tpl_id = 3, tpl_user_id = ''u1'', tpl_name = ''C'', tpl_prompt = ''r'',
           tpl_is_default = False, tpl_sort_order = 1\<rparr>]"]
  by (simp add: templates_user_def authenticate_def)

section \<open>Properties of the availability calculator\<close>

lemma covered_iff: "covered t xs = (\<exists>i\<in>set xs. fst i \<le> t \<and> t < snd i)"
  by (simp add: covered_def list_ex_iff)

lemma merge_sorted_covered:
  "sorted (map fst xs) \<Longrightarrow> covered t (merge_sorted xs) = covered t xs"
proof (induction xs rule: merge_sorted.induct)
  case 1
  then show ?case by simp
next
  case (2 i)
  then show ?case by simp
next
  case (3 s1 e1 s2 e2 rest)
  show ?case
  proof (cases "s2 \<le> e1")
    case True
    have srt: "sorted (map fst ((s1, max e1 e2) # rest))"
      using "3.prems" by auto
    have "covered t (merge_sorted ((s1, e1) # (s2, e2) # rest))
          = covered t ((s1, max e1 e2) # rest)"
      using True "3.IH"(1) [OF True srt] by simp
    also have "\<dots> = covered t ((s1, e1) # (s2, e2) # rest)"
      using True "3.prems" by (auto simp: covered_iff)
    finally show ?thesis .
  next
    case False
    have srt: "sorted (map fst ((s2, e2) # rest))"
      using "3.prems" by auto
    show ?thesis
      using False "3.IH"(2) [OF False srt] by (auto simp: covered_iff)
  qed
qed

lemma merge_intervals_covered: "covered t (merge_intervals xs) = covered t xs"
proof -
  have "covered t (merge_intervals xs) = covered t (sort_key fst xs)"
    unfolding merge_intervals_def by (rule merge_sorted_covered) simp
  also have "\<dots> = covered t xs"
    by (simp add: covered_iff)
  finally show ?thesis .
qed


lemma merge_sorted_hd:
  "xs \<noteq> [] \<Longrightarrow> fst (hd (merge_sorted xs)) = fst (hd xs)"
  by (induction xs rule: merge_sorted.induct) auto

lemma separated_Cons:
  "separated (i # xs) = ((xs = [] \<or> snd i < fst (hd xs)) \<and> separated xs)"
  by (cases xs) auto

lemma merge_sorted_separated:
  "sorted (map fst xs) \<Longrightarrow> separated (merge_sorted xs)"
proof (induction xs rule: merge_sorted.induct)
  case 1
  then show ?case by simp
next
  case (2 i)
  then show ?case by simp
next
  case (3 s1 e1 s2 e2 rest)
  show ?case
  proof (cases "s2 \<le> e1")
    case True
    have srt: "sorted (map fst ((s1, max e1 e2) # rest))"
      using "3.prems" by auto
    show ?thesis
      using True "3.IH"(1) [OF True srt] by simp
  next
    case False
    have srt: "sorted (map fst ((s2, e2) # rest))"
      using "3.prems" by auto
    have hd: "fst (hd (merge_sorted ((s2, e2) # rest))) = s2"
      using merge_sorted_hd [of "(s2, e2) # rest"] by simp
    show ?thesis
      using False "3.IH"(2) [OF False srt] hd
      by (simp add: separated_Cons)
  qed
qed

lemma merge_sorted_fst_subset:
  "fst ` set (merge_sorted xs) \<subseteq> fst ` set xs"
  by (induction xs rule: merge_sorted.induct) auto

lemma merge_sorted_sorted:
  "sorted (map fst xs) \<Longrightarrow> sorted (map fst (merge_sorted xs))"
proof (induction xs rule: merge_sorted.induct)
  case 1
  then show ?case by simp
next
  case (2 i)
  then show ?case by simp
next
  case (3 s1 e1 s2 e2 rest)
  show ?case
  proof (cases "s2 \<le> e1")
    case True
    have srt: "sorted (map fst ((s1, max e1 e2) # rest))"
      using "3.prems" by auto
    show ?thesis
      using True "3.IH"(1) [OF True srt] by simp
  next
    case False
    have srt: "sorted (map fst ((s2, e2) # rest))"
      using "3.prems" by auto
    have "\<forall>x\<in>set (merge_sorted ((s2, e2) # rest)). s1 \<le> fst x"
      using merge_sorted_fst_subset [of "(s2, e2) # rest"] "3.prems" by fastforce
    then show ?thesis
      using False "3.IH"(2) [OF False srt] by simp
  qed
qed

lemma merge_sorted_contains:
  "sorted (map fst xs) \<Longrightarrow> i \<in> set xs \<Longrightarrow> \<exists>m\<in>set (merge_sorted xs). contains m i"
proof (induction xs arbitrary: i rule: merge_sorted.induct)
  case 1
  then show ?case by simp
next
  case (2 j)
  then show ?case by (simp add: contains_def)
next
  case (3 s1 e1 s2 e2 rest)
  show ?case
  proof (cases "s2 \<le> e1")
    case True
    have srt: "sorted (map fst ((s1, max e1 e2) # rest))"
      using "3.prems"(1) by auto
    have s12: "s1 \<le> s2" using "3.prems"(1) by simp
    have "\<exists>j\<in>set ((s1, max e1 e2) # rest). contains j i"
      using "3.prems"(2) s12 by (auto simp: contains_def)
    then obtain j where j: "j \<in> set ((s1, max e1 e2) # rest)" "contains j i" by blast
    obtain m where m: "m \<in> set (merge_sorted ((s1, max e1 e2) # rest))" "contains m j"
      using "3.IH"(1) [OF True srt j(1)] by blast
    have "contains m i" using j(2) m(2) by (auto simp: contains_def)
    then show ?thesis using True m(1) by auto
  next
    case False
    have srt: "sorted (map fst ((s2, e2) # rest))"
      using "3.prems"(1) by auto
    show ?thesis
    proof (cases "i = (s1, e1)")
      case True
      then show ?thesis using False by (auto simp: contains_def)
    next
      case ne: False
      then have "i \<in> set ((s2, e2) # rest)" using "3.prems"(2) by auto
      then show ?thesis using False "3.IH"(2) [OF False srt] by auto
    qed
  qed
qed

lemma separated_sorted_disjoint:
  "sorted (map fst xs) \<Longrightarrow> separated xs \<Longrightarrow> m \<in> set xs \<Longrightarrow> m' \<in> set xs \<Longrightarrow>
   fst m \<le> t \<Longrightarrow> t < snd m \<Longrightarrow> fst m' \<le> t \<Longrightarrow> t < snd m' \<Longrightarrow> m = m'"
proof (induction xs)
  case Nil
  then show ?case by simp
next
  case (Cons x xs)
  have later: "snd x < fst j" if "j \<in> set xs" for j
  proof -
    have "xs \<noteq> []" using that by auto
    then have "snd x < fst (hd xs)" using Cons.prems(2) by (simp add: separated_Cons)
    moreover have "fst (hd xs) \<le> fst j"
      using Cons.prems(1) that \<open>xs \<noteq> []\<close> by (cases xs) auto
    ultimately show ?thesis by simp
  qed
  have tl: "sorted (map fst xs)" "separated xs"
    using Cons.prems(1,2) by (auto simp: separated_Cons)
  consider "m = x" "m' = x" | "m = x" "m' \<in> set xs" | "m \<in> set xs" "m' = x"
    | "m \<in> set xs" "m' \<in> set xs"
    using Cons.prems(3,4) by auto
  then show ?case
  proof cases
    case 1
    then show ?thesis by simp
  next
    case 2
    then show ?thesis using later [of m'] Cons.prems by auto
  next
    case 3
    then show ?thesis using later [of m] Cons.prems by auto
  next
    case 4
    then show ?thesis using Cons.IH [OF tl] Cons.prems by blast
  qed
qed

lemma subtract_free:
  "sorted (map fst bs) \<Longrightarrow> (a, b) \<in> set (subtract ws we bs) \<Longrightarrow> a \<le> t \<Longrightarrow> t < b \<Longrightarrow>
   ws \<le> t \<and> t < we \<and> \<not> covered t bs"
proof (induction bs arbitrary: ws)
  case Nil
  then show ?case by (auto simp: covered_iff split: if_splits)
next
  case (Cons x bs)
  obtain s e where x: "x = (s, e)" by (cases x)
  have srt: "sorted (map fst bs)" using Cons.prems(1) by simp
  have later: "s \<le> fst j" if "j \<in> set bs" for j
    using Cons.prems(1) that x by auto
  from Cons.prems(2) x
  consider "ws < min s we" "a = ws" "b = min s we"
    | "(a, b) \<in> set (subtract (max ws e) we bs)"
    by (auto split: if_splits)
  then show ?case
  proof cases
    case 1
    then have "t < s" "t < we" "ws \<le> t" using Cons.prems(3,4) by auto
    then show ?thesis using later x by (fastforce simp: covered_iff)
  next
    case 2
    have "max ws e \<le> t \<and> t < we \<and> \<not> covered t bs"
      using Cons.IH [OF srt 2 Cons.prems(3,4)] .
    then show ?thesis using x by (auto simp: covered_iff)
  qed
qed

lemma walk_slot:
  "t \<in> set (walk g a b) \<Longrightarrow> 0 < g \<and> a \<le> t \<and> t + g \<le> b"
proof (induction g a b rule: walk.induct)
  case (1 g a b)
  show ?case
  proof (cases "0 < g \<and> a + g \<le> b")
    case True
    then have "t = a \<or> t \<in> set (walk g (a + g) b)"
      using "1.prems" by (subst (asm) walk.simps) auto
    then show ?thesis using True "1.IH" by auto
  next
    case False
    then show ?thesis using "1.prems" by (subst (asm) walk.simps) auto
  qed
qed


lemma day_busy_sorted: "sorted (map fst (day_busy rq busy d))"
  unfolding day_busy_def merge_intervals_def by (rule merge_sorted_sorted) simp

lemma day_busy_covered:
  "covered t (day_busy rq busy d)
   = covered t (filter (overlaps (window_start rq d) (window_end rq d))
        (map (expand (rq_bufferBefore rq) (rq_bufferAfter rq)) busy))"
  unfolding day_busy_def by (rule merge_intervals_covered)

lemma day_free_not_busy:
  assumes "(a, b) \<in> set (day_free rq busy d)" "a \<le> u" "u < b" "i \<in> set busy"
  shows "window_start rq d \<le> u \<and> u < window_end rq d
    \<and> \<not> (fst (expand (rq_bufferBefore rq) (rq_bufferAfter rq) i) \<le> u
          \<and> u < snd (expand (rq_bufferBefore rq) (rq_bufferAfter rq) i))"
proof -
  let ?j = "expand (rq_bufferBefore rq) (rq_bufferAfter rq) i"
  have free: "window_start rq d \<le> u \<and> u < window_end rq d \<and> \<not> covered u (day_busy rq busy d)"
    using subtract_free [OF day_busy_sorted, of a b "window_start rq d" "window_end rq d" rq busy d u]
      assms(1-3) by (simp add: day_free_def)
  have False if in_j: "fst ?j \<le> u" "u < snd ?j"
  proof -
    have "overlaps (window_start rq d) (window_end rq d) ?j"
      using free in_j by (simp add: overlaps_def)
    then have "covered u (filter (overlaps (window_start rq d) (window_end rq d))
        (map (expand (rq_bufferBefore rq) (rq_bufferAfter rq)) busy))"
      using in_j assms(4) by (auto simp: covered_iff)
    then have "covered u (day_busy rq busy d)"
      by (simp add: day_busy_covered)
    then show False using free by simp
  qed
  then show ?thesis using free by blast
qed

lemma day_slot_in_free:
  "t \<in> set (day_slots_of rq busy d) \<Longrightarrow>
   \<exists>a b. (a, b) \<in> set (day_free rq busy d) \<and> 0 < rq_duration rq * MINUTE \<and> a \<le> t
     \<and> t + rq_duration rq * MINUTE \<le> b"
  by (auto simp: day_slots_of_def dest: walk_slot)


text \<open>
  Claim C2. In the availability calculator overlapping busy intervals are merged before the
  subtraction from the working window. Merging \<open>[9:00, 10:00)\<close> and \<open>[9:30, 10:30)\<close>
  gives the single interval \<open>[9:00, 10:30)\<close>. For every list of intervals the merged list
  is in ascending order with a gap between neighbours, it covers exactly the instants the
  list covers, and two intervals of the list that share an instant lie in one interval of
  the merged list. The free windows of a day are what the subtraction leaves of the window
  once the merged list is taken out.
\<close>

theorem overlapping_busy_intervals_merged:
  "merge_intervals [(9 * 60 * MINUTE, 10 * 60 * MINUTE),
                    ((9 * 60 + 30) * MINUTE, (10 * 60 + 30) * MINUTE)]
     = [(9 * 60 * MINUTE, (10 * 60 + 30) * MINUTE)]
   \<and> sorted (map fst (merge_intervals xs))
   \<and> separated (merge_intervals xs)
   \<and> (\<forall>t. covered t (merge_intervals xs) = covered t xs)
   \<and> (\<forall>i j t. i \<in> set xs \<and> j \<in> set xs \<and> fst i \<le> t \<and> t < snd i \<and> fst j \<le> t \<and> t < snd j
         \<longrightarrow> (\<exists>m\<in>set (merge_intervals xs). contains m i \<and> contains m j))
   \<and> day_free rq busy d
       = subtract (window_start rq d) (window_end rq d)
           (merge_intervals
              (filter (overlaps (window_start rq d) (window_end rq d))
                 (map (expand (rq_bufferBefore rq) (rq_bufferAfter rq)) busy)))"
proof -
  have example:
    "merge_intervals [(9 * 60 * MINUTE, 10 * 60 * MINUTE),
                      ((9 * 60 + 30) * MINUTE, (10 * 60 + 30) * MINUTE)]
       = [(9 * 60 * MINUTE, (10 * 60 + 30) * MINUTE)]"
    by (simp add: merge_intervals_def MINUTE_def)
  have srt: "sorted (map fst (sort_key fst xs))" by simp
  have ordered: "sorted (map fst (merge_intervals xs))"
    unfolding merge_intervals_def using srt by (rule merge_sorted_sorted)
  have gaps: "separated (merge_intervals xs)"
    unfolding merge_intervals_def using srt by (rule merge_sorted_separated)
  have pair: "\<exists>m\<in>set (merge_intervals xs). contains m i \<and> contains m j"
    if ij: "i \<in> set xs" "j \<in> set xs" and t: "fst i \<le> t" "t < snd i" "fst j \<le> t" "t < snd j"
    for i j t
  proof -
    obtain m where m: "m \<in> set (merge_intervals xs)" "contains m i"
      using merge_sorted_contains [OF srt, of i] ij(1) by (auto simp: merge_intervals_def)
    obtain m' where m': "m' \<in> set (merge_intervals xs)" "contains m' j"
      using merge_sorted_contains [OF srt, of j] ij(2) by (auto simp: merge_intervals_def)
    have "fst m \<le> t" "t < snd m" "fst m' \<le> t" "t < snd m'"
      using m(2) m'(2) t by (auto simp: contains_def)
    then have "m = m'"
      using separated_sorted_disjoint [OF ordered gaps m(1) m'(1)] by blast
    then show ?thesis using m m' by blast
  qed
  have order: "day_free rq busy d
       = subtract (window_start rq d) (window_end rq d)
           (merge_intervals
              (filter (overlaps (window_start rq d) (window_end rq d))
                 (map (expand (rq_bufferBefore rq) (rq_bufferAfter rq)) busy)))"
    by (simp add: day_free_def day_busy_def)
  show ?thesis
    using example ordered gaps merge_intervals_covered pair order by blast
qed

theorem overlapping_busy_intervals_merged_witness:
  "(9 * 60 * MINUTE, 10 * 60 * MINUTE)
      \<in> set [(9 * 60 * MINUTE, 10 * 60 * MINUTE), ((9 * 60 + 30) * MINUTE, (10 * 60 + 30) * MINUTE)]
   \<and> ((9 * 60 + 30) * MINUTE, (10 * 60 + 30) * MINUTE)
      \<in> set [(9 * 60 * MINUTE, 10 * 60 * MINUTE), ((9 * 60 + 30) * MINUTE, (10 * 60 + 30) * MINUTE)]
   \<and> 9 * 60 * MINUTE \<le> (9 * 60 + 45) * MINUTE \<and> (9 * 60 + 45) * MINUTE < 10 * 60 * MINUTE
   \<and> (9 * 60 + 30) * MINUTE \<le> (9 * 60 + 45) * MINUTE
   \<and> (9 * 60 + 45) * MINUTE < (10 * 60 + 30) * MINUTE
   \<and> (\<exists>m\<in>set (merge_intervals
          [(9 * 60 * MINUTE, 10 * 60 * MINUTE), ((9 * 60 + 30) * MINUTE, (10 * 60 + 30) * MINUTE)]).
        contains m (9 * 60 * MINUTE, 10 * 60 * MINUTE)
        \<and> contains m ((9 * 60 + 30) * MINUTE, (10 * 60 + 30) * MINUTE))"
proof -
  let ?xs = "[(9 * 60 * MINUTE, 10 * 60 * MINUTE), ((9 * 60 + 30) * MINUTE, (10 * 60 + 30) * MINUTE)]"
  have h: "(9 * 60 * MINUTE, 10 * 60 * MINUTE) \<in> set ?xs
     \<and> ((9 * 60 + 30) * MINUTE, (10 * 60 + 30) * MINUTE) \<in> set ?xs
     \<and> fst (9 * 60 * MINUTE, 10 * 60 * MINUTE) \<le> (9 * 60 + 45) * MINUTE
     \<and> (9 * 60 + 45) * MINUTE < snd (9 * 60 * MINUTE, 10 * 60 * MINUTE)
     \<and> fst ((9 * 60 + 30) * MINUTE, (10 * 60 + 30) * MINUTE) \<le> (9 * 60 + 45) * MINUTE
     \<and> (9 * 60 + 45) * MINUTE < snd ((9 * 60 + 30) * MINUTE, (10 * 60 + 30) * MINUTE)"
    by (simp add: MINUTE_def)
  have "\<exists>m\<in>set (merge_intervals ?xs).
        contains m (9 * 60 * MINUTE, 10 * 60 * MINUTE)
        \<and> contains m ((9 * 60 + 30) * MINUTE, (10 * 60 + 30) * MINUTE)"
    using overlapping_busy_intervals_merged [of ?xs] h by blast
  then show ?thesis using h by simp
qed

text \<open>
  Claim C3. For every busy interval and every setting of the buffers, no slot the calculator
  emits meets the busy interval expanded by \<open>bufferBefore\<close> minutes before its start and
  \<open>bufferAfter\<close> minutes after its end, and every slot lies in the working window. With a
  buffer of 10 minutes on either side of the busy interval \<open>[10:00, 11:00)\<close> and working
  hours from 9:00 to 18:00, the free time of the day is \<open>[9:00, 9:50)\<close> and
  \<open>[11:10, 18:00)\<close>: the range \<open>[9:50, 11:10)\<close> is excluded.
\<close>

theorem buffered_busy_excluded:
  assumes "t \<in> set (day_slots_of rq busy d)" and "i \<in> set busy"
  shows "\<not> meets t (rq_duration rq * MINUTE) (expand (rq_bufferBefore rq) (rq_bufferAfter rq) i)
    \<and> window_start rq d \<le> t \<and> t + rq_duration rq * MINUTE \<le> window_end rq d
    \<and> expand 10 10 (10 * 60 * MINUTE, 11 * 60 * MINUTE)
        = ((9 * 60 + 50) * MINUTE, (11 * 60 + 10) * MINUTE)
    \<and> day_free \<lparr>rq_start = 0, rq_end = DAY, rq_daysOfWeek = [1, 2, 3, 4, 5],
                 rq_windowStart = 9 * 60, rq_windowEnd = 18 * 60, rq_duration = 30,
                 rq_bufferBefore = 10, rq_bufferAfter = 10\<rparr>
         [(10 * 60 * MINUTE, 11 * 60 * MINUTE)] 0
        = [(9 * 60 * MINUTE, (9 * 60 + 50) * MINUTE), ((11 * 60 + 10) * MINUTE, 18 * 60 * MINUTE)]"
proof -
  let ?g = "rq_duration rq * MINUTE"
  let ?j = "expand (rq_bufferBefore rq) (rq_bufferAfter rq) i"
  obtain a b where ab: "(a, b) \<in> set (day_free rq busy d)" "0 < ?g" "a \<le> t" "t + ?g \<le> b"
    using day_slot_in_free [OF assms(1)] by blast
  have no: "\<not> meets t ?g ?j"
  proof
    assume m: "meets t ?g ?j"
    define u where "u = max t (fst ?j)"
    have u: "a \<le> u" "u < b" "fst ?j \<le> u" "u < snd ?j"
      using m ab by (auto simp: meets_def u_def)
    show False
      using day_free_not_busy [OF ab(1) u(1,2) assms(2)] u(3,4) by simp
  qed
  have lo: "window_start rq d \<le> t"
    using day_free_not_busy [OF ab(1) ab(3) _ assms(2)] ab(2,4) by simp
  have hi: "t + ?g \<le> window_end rq d"
    using day_free_not_busy [OF ab(1) _ _ assms(2), where u = "t + ?g - 1"] ab(2,3,4) by simp
  have ex1: "expand 10 10 (10 * 60 * MINUTE, 11 * 60 * MINUTE)
        = ((9 * 60 + 50) * MINUTE, (11 * 60 + 10) * MINUTE)"
    by (simp add: expand_def MINUTE_def)
  have ex2: "day_free \<lparr>rq_start = 0, rq_end = DAY, rq_daysOfWeek = [1, 2, 3, 4, 5],
                 rq_windowStart = 9 * 60, rq_windowEnd = 18 * 60, rq_duration = 30,
                 rq_bufferBefore = 10, rq_bufferAfter = 10\<rparr>
         [(10 * 60 * MINUTE, 11 * 60 * MINUTE)] 0
        = [(9 * 60 * MINUTE, (9 * 60 + 50) * MINUTE), ((11 * 60 + 10) * MINUTE, 18 * 60 * MINUTE)]"
    by (simp add: day_free_def day_busy_def window_start_def window_end_def expand_def
        overlaps_def merge_intervals_def MINUTE_def DAY_def)
  show ?thesis using no lo hi ex1 ex2 by blast
qed

theorem buffered_busy_excluded_witness:
  "(11 * 60 + 10) * MINUTE
     \<in> set (day_slots_of \<lparr>rq_start = 0, rq_end = DAY, rq_daysOfWeek = [1, 2, 3, 4, 5],
                 rq_windowStart = 9 * 60, rq_windowEnd = 18 * 60, rq_duration = 30,
                 rq_bufferBefore = 10, rq_bufferAfter = 10\<rparr>
         [(10 * 60 * MINUTE, 11 * 60 * MINUTE)] 0)
   \<and> (10 * 60 * MINUTE, 11 * 60 * MINUTE) \<in> set [(10 * 60 * MINUTE, 11 * 60 * MINUTE)]
   \<and> \<not> meets ((11 * 60 + 10) * MINUTE) (30 * MINUTE)
         (expand 10 10 (10 * 60 * MINUTE, 11 * 60 * MINUTE))"
proof -
  let ?rq = "\<lparr>rq_start = 0, rq_end = DAY, rq_daysOfWeek = [1, 2, 3, 4, 5],
                 rq_windowStart = 9 * 60, rq_windowEnd = 18 * 60, rq_duration = 30,
                 rq_bufferBefore = 10, rq_bufferAfter = 10\<rparr>"
  have slot: "(11 * 60 + 10) * MINUTE
     \<in> set (day_slots_of ?rq [(10 * 60 * MINUTE, 11 * 60 * MINUTE)] 0)"
    by (simp add: day_slots_of_def day_free_def day_busy_def window_start_def window_end_def
        expand_def overlaps_def merge_intervals_def MINUTE_def DAY_def walk.simps)
  have busy: "(10 * 60 * MINUTE, 11 * 60 * MINUTE) \<in> set [(10 * 60 * MINUTE, 11 * 60 * MINUTE)]"
    by simp
  have "\<not> meets ((11 * 60 + 10) * MINUTE) (rq_duration ?rq * MINUTE)
         (expand (rq_bufferBefore ?rq) (rq_bufferAfter ?rq) (10 * 60 * MINUTE, 11 * 60 * MINUTE))"
    using buffered_busy_excluded [OF slot busy] by blast
  then show ?thesis
    using slot by simp
qed

text \<open>
  Claim C4. The output has one entry for each day of the requested range that matches the
  day-of-week filter. When the working window of such a day is covered by the buffered busy
  intervals, the entry of the day is in the output with no slot: an empty entry, not an
  error. With working hours from 9:00 to 18:00 and a busy interval \<open>[9:00, 18:00)\<close> the
  day has zero slots.
\<close>

theorem fully_busy_day_empty_entry:
  assumes "d \<in> set (days_in_range rq)"
    and "\<forall>u. window_start rq d \<le> u \<and> u < window_end rq d
           \<longrightarrow> covered u (map (expand (rq_bufferBefore rq) (rq_bufferAfter rq)) busy)"
  shows "map day_date (availability rq busy) = days_in_range rq
    \<and> day_slots_of rq busy d = []
    \<and> \<lparr>day_date = d, day_slots = []\<rparr> \<in> set (availability rq busy)
    \<and> availability \<lparr>rq_start = 0, rq_end = DAY, rq_daysOfWeek = [1, 2, 3, 4, 5],
                 rq_windowStart = 9 * 60, rq_windowEnd = 18 * 60, rq_duration = 30,
                 rq_bufferBefore = 0, rq_bufferAfter = 0\<rparr>
         [(9 * 60 * MINUTE, 18 * 60 * MINUTE)]
        = [\<lparr>day_date = 0, day_slots = []\<rparr>]"
proof -
  have dates: "map day_date (availability rq busy) = days_in_range rq"
    by (simp add: availability_def comp_def)
  have none: "day_slots_of rq busy d = []"
  proof (rule ccontr)
    assume "day_slots_of rq busy d \<noteq> []"
    then obtain t where t: "t \<in> set (day_slots_of rq busy d)"
      by (cases "day_slots_of rq busy d") auto
    obtain a b where ab: "(a, b) \<in> set (day_free rq busy d)" "0 < rq_duration rq * MINUTE"
      "a \<le> t" "t + rq_duration rq * MINUTE \<le> b"
      using day_slot_in_free [OF t] by blast
    have tb: "t < b" using ab(2,4) by simp
    have free: "window_start rq d \<le> t \<and> t < window_end rq d
        \<and> \<not> covered t (day_busy rq busy d)"
      using subtract_free [OF day_busy_sorted, of a b "window_start rq d" "window_end rq d"
          rq busy d t] ab(1,3) tb
      by (simp add: day_free_def)
    then have "covered t (map (expand (rq_bufferBefore rq) (rq_bufferAfter rq)) busy)"
      using assms(2) by blast
    then have "\<exists>j\<in>set (map (expand (rq_bufferBefore rq) (rq_bufferAfter rq)) busy).
        fst j \<le> t \<and> t < snd j"
      by (simp only: covered_iff)
    then obtain j where j: "j \<in> set (map (expand (rq_bufferBefore rq) (rq_bufferAfter rq)) busy)"
      "fst j \<le> t" "t < snd j"
      by blast
    have "overlaps (window_start rq d) (window_end rq d) j"
      using free j(2,3) by (simp add: overlaps_def)
    then have "covered t (filter (overlaps (window_start rq d) (window_end rq d))
        (map (expand (rq_bufferBefore rq) (rq_bufferAfter rq)) busy))"
      using j unfolding covered_iff by auto
    then have "covered t (day_busy rq busy d)"
      by (simp add: day_busy_covered)
    then show False using free by simp
  qed
  have entry: "\<lparr>day_date = d, day_slots = []\<rparr> \<in> set (availability rq busy)"
    using assms(1) none by (force simp: availability_def)
  have days: "days_in_range \<lparr>rq_start = 0, rq_end = DAY, rq_daysOfWeek = [1, 2, 3, 4, 5],
                 rq_windowStart = 9 * 60, rq_windowEnd = 18 * 60, rq_duration = 30,
                 rq_bufferBefore = 0, rq_bufferAfter = 0\<rparr> = [0]"
    by code_simp
  have slots: "day_slots_of \<lparr>rq_start = 0, rq_end = DAY, rq_daysOfWeek = [1, 2, 3, 4, 5],
                 rq_windowStart = 9 * 60, rq_windowEnd = 18 * 60, rq_duration = 30,
                 rq_bufferBefore = 0, rq_bufferAfter = 0\<rparr>
         [(9 * 60 * MINUTE, 18 * 60 * MINUTE)] 0 = []"
    by (simp add: day_slots_of_def day_free_def day_busy_def window_start_def window_end_def
        expand_def overlaps_def merge_intervals_def MINUTE_def DAY_def)
  have example: "availability \<lparr>rq_start = 0, rq_end = DAY, rq_daysOfWeek = [1, 2, 3, 4, 5],
                 rq_windowStart = 9 * 60, rq_windowEnd = 18 * 60, rq_duration = 30,
                 rq_bufferBefore = 0, rq_bufferAfter = 0\<rparr>
         [(9 * 60 * MINUTE, 18 * 60 * MINUTE)]
        = [\<lparr>day_date = 0, day_slots = []\<rparr>]"
    by (simp only: availability_def days slots list.map)
  show ?thesis using dates none entry example by blast
qed

theorem fully_busy_day_empty_entry_witness:
  "0 \<in> set (days_in_range \<lparr>rq_start = 0, rq_end = DAY, rq_daysOfWeek = [1, 2, 3, 4, 5],
                 rq_windowStart = 9 * 60, rq_windowEnd = 18 * 60, rq_duration = 30,
                 rq_bufferBefore = 0, rq_bufferAfter = 0\<rparr>)
   \<and> covered (12 * 60 * MINUTE) (map (expand 0 0) [(9 * 60 * MINUTE, 18 * 60 * MINUTE)])
   \<and> \<lparr>day_date = 0, day_slots = []\<rparr>
       \<in> set (availability \<lparr>rq_start = 0, rq_end = DAY, rq_daysOfWeek = [1, 2, 3, 4, 5],
                 rq_windowStart = 9 * 60, rq_windowEnd = 18 * 60, rq_duration = 30,
                 rq_bufferBefore = 0, rq_bufferAfter = 0\<rparr>
                [(9 * 60 * MINUTE, 18 * 60 * MINUTE)])"
proof -
  let ?rq = "\<lparr>rq_start = 0, rq_end = DAY, rq_daysOfWeek = [1, 2, 3, 4, 5],
                 rq_windowStart = 9 * 60, rq_windowEnd = 18 * 60, rq_duration = 30,
                 rq_bufferBefore = 0, rq_bufferAfter = 0\<rparr>"
  let ?busy = "[(9 * 60 * MINUTE, 18 * 60 * MINUTE)]"
  have day: "0 \<in> set (days_in_range ?rq)"
    by code_simp
  have cov: "\<forall>u. 9 * 60 * MINUTE \<le> u \<and> u < 18 * 60 * MINUTE
          \<longrightarrow> covered u (map (expand 0 0) ?busy)"
    by (simp add: covered_def expand_def)
  have full: "\<forall>u. window_start ?rq 0 \<le> u \<and> u < window_end ?rq 0
           \<longrightarrow> covered u (map (expand (rq_bufferBefore ?rq) (rq_bufferAfter ?rq)) ?busy)"
    using cov by (simp add: window_start_def window_end_def)
  have "\<lparr>day_date = 0, day_slots = []\<rparr> \<in> set (availability ?rq ?busy)"
    using fully_busy_day_empty_entry [OF day full] by blast
  moreover have "covered (12 * 60 * MINUTE) (map (expand 0 0) ?busy)"
    using cov by (simp add: MINUTE_def)
  ultimately show ?thesis using day by blast
qed

section \<open>Properties of the event listing\<close>

lemma range_bound_None: "range_bound pg_time p = Inr None \<longleftrightarrow> \<not> truthy p"
  by (auto simp: range_bound_def truthy_def split: option.splits sum.splits)

lemma range_bound_Some:
  "range_bound pg_time p = Inr (Some t) \<longleftrightarrow> (\<exists>s. p = Some s \<and> s \<noteq> [] \<and> pg_time s = Inr t)"
  by (auto simp: range_bound_def truthy_def split: option.splits sum.splits)

lemma select_events_rows:
  assumes "range_bound pg_time start = Inr lo" "range_bound pg_time end = Inr hi"
  shows "select_events pg_time tbl uid start end
     = Inr (sort_key start_at (filter (\<lambda>r. user_id r = uid \<and> in_range lo hi r) tbl))"
  using assms by (simp add: select_events_def)

lemma events_GET_rows:
  assumes "requester w = Some uid" "w_service w = None" "w_db_error w = None"
    "range_bound pg_time start = Inr lo" "range_bound pg_time end = Inr hi"
  shows "events_GET w pg_time start end tbl
     = \<lparr>status_code = 200,
        payload = EventsBody
          (sort_key start_at (filter (\<lambda>r. user_id r = uid \<and> in_range lo hi r) tbl))\<rparr>"
  using assms(1-3) select_events_rows [OF assms(4,5)]
  by (auto simp: events_GET_def events_GET_try_def requester_def split: sum.splits)

lemma events_GET_failure:
  assumes "requester w = Some uid"
    and "w_service w \<noteq> None \<or> w_db_error w \<noteq> None
         \<or> (\<exists>e. range_bound pg_time start = Inl e) \<or> (\<exists>e. range_bound pg_time end = Inl e)"
  shows "\<exists>m. events_GET w pg_time start end tbl = \<lparr>status_code = 500, payload = ErrorBody m\<rparr>"
  using assms
  by (auto simp: events_GET_def events_GET_try_def requester_def select_events_def
      split: sum.splits option.splits)

text \<open>
  Claim C7, as amended. For an authenticated request to GET /api/calendar/events on which the
  storage query succeeds (the service client is created, the storage layer reports no error
  and accepts each given bound as a timestamp), the response has status 200 and holds
  exactly the rows of the cache that belong to the requesting user and whose start lies in
  the range, in ascending order of start: the lower bound applies when \<open>start\<close> is given,
  the upper bound when \<open>end\<close> is given (a parameter counts as given when it is a non-empty
  string). For an authenticated request on which the query fails, the response has status
  500 and an error message.
\<close>

theorem events_GET_in_range_sorted:
  assumes "requester w = Some uid"
  shows "(\<forall>lo hi. w_service w = None \<and> w_db_error w = None
           \<and> range_bound pg_time start = Inr lo \<and> range_bound pg_time end = Inr hi \<longrightarrow>
         (\<exists>rows. events_GET w pg_time start end tbl
                   = \<lparr>status_code = 200, payload = EventsBody rows\<rparr>
            \<and> mset rows
                = filter_mset (\<lambda>r. user_id r = uid
                     \<and> (case lo of None \<Rightarrow> True | Some t \<Rightarrow> t \<le> start_at r)
                     \<and> (case hi of None \<Rightarrow> True | Some t \<Rightarrow> start_at r \<le> t)) (mset tbl)
            \<and> sorted (map start_at rows)
            \<and> (lo = None) = (\<not> truthy start)
            \<and> (hi = None) = (\<not> truthy end)
            \<and> (\<forall>t. lo = Some t \<longrightarrow> (\<exists>s. start = Some s \<and> pg_time s = Inr t))
            \<and> (\<forall>t. hi = Some t \<longrightarrow> (\<exists>s. end = Some s \<and> pg_time s = Inr t))))
     \<and> (w_service w \<noteq> None \<or> w_db_error w \<noteq> None
          \<or> (\<exists>e. range_bound pg_time start = Inl e) \<or> (\<exists>e. range_bound pg_time end = Inl e) \<longrightarrow>
         (\<exists>m. events_GET w pg_time start end tbl = \<lparr>status_code = 500, payload = ErrorBody m\<rparr>))"
proof -
  have ok: "\<exists>rows. events_GET w pg_time start end tbl
                   = \<lparr>status_code = 200, payload = EventsBody rows\<rparr>
            \<and> mset rows
                = filter_mset (\<lambda>r. user_id r = uid
                     \<and> (case lo of None \<Rightarrow> True | Some t \<Rightarrow> t \<le> start_at r)
                     \<and> (case hi of None \<Rightarrow> True | Some t \<Rightarrow> start_at r \<le> t)) (mset tbl)
            \<and> sorted (map start_at rows)
            \<and> (lo = None) = (\<not> truthy start)
            \<and> (hi = None) = (\<not> truthy end)
            \<and> (\<forall>t. lo = Some t \<longrightarrow> (\<exists>s. start = Some s \<and> pg_time s = Inr t))
            \<and> (\<forall>t. hi = Some t \<longrightarrow> (\<exists>s. end = Some s \<and> pg_time s = Inr t))"
    if h: "w_service w = None" "w_db_error w = None"
      "range_bound pg_time start = Inr lo" "range_bound pg_time end = Inr hi"
    for lo hi
  proof -
    let ?rows = "sort_key start_at (filter (\<lambda>r. user_id r = uid \<and> in_range lo hi r) tbl)"
    have resp: "events_GET w pg_time start end tbl
        = \<lparr>status_code = 200, payload = EventsBody ?rows\<rparr>"
      using assms h by (rule events_GET_rows)
    have rows: "mset ?rows
          = filter_mset (\<lambda>r. user_id r = uid
               \<and> (case lo of None \<Rightarrow> True | Some t \<Rightarrow> t \<le> start_at r)
               \<and> (case hi of None \<Rightarrow> True | Some t \<Rightarrow> start_at r \<le> t)) (mset tbl)"
      by (simp add: in_range_def)
    have ord: "sorted (map start_at ?rows)"
      by simp
    have lo: "(lo = None) = (\<not> truthy start)"
      using h(3) range_bound_None [of pg_time start] by auto
    have hi: "(hi = None) = (\<not> truthy end)"
      using h(4) range_bound_None [of pg_time "end"] by auto
    have lo': "\<forall>t. lo = Some t \<longrightarrow> (\<exists>s. start = Some s \<and> pg_time s = Inr t)"
      using h(3) range_bound_Some [of pg_time start] by auto
    have hi': "\<forall>t. hi = Some t \<longrightarrow> (\<exists>s. end = Some s \<and> pg_time s = Inr t)"
      using h(4) range_bound_Some [of pg_time "end"] by auto
    show ?thesis
      using resp rows ord lo hi lo' hi' by blast
  qed
  show ?thesis
  proof (intro conjI allI impI)
    fix lo hi
    assume "w_service w = None \<and> w_db_error w = None
           \<and> range_bound pg_time start = Inr lo \<and> range_bound pg_time end = Inr hi"
    then show "\<exists>rows. events_GET w pg_time start end tbl
                   = \<lparr>status_code = 200, payload = EventsBody rows\<rparr>
            \<and> mset rows
                = filter_mset (\<lambda>r. user_id r = uid
                     \<and> (case lo of None \<Rightarrow> True | Some t \<Rightarrow> t \<le> start_at r)
                     \<and> (case hi of None \<Rightarrow> True | Some t \<Rightarrow> start_at r \<le> t)) (mset tbl)
            \<and> sorted (map start_at rows)
            \<and> (lo = None) = (\<not> truthy start)
            \<and> (hi = None) = (\<not> truthy end)
            \<and> (\<forall>t. lo = Some t \<longrightarrow> (\<exists>s. start = Some s \<and> pg_time s = Inr t))
            \<and> (\<forall>t. hi = Some t \<longrightarrow> (\<exists>s. end = Some s \<and> pg_time s = Inr t))"
      using ok [of lo hi] by simp
  next
    assume "w_service w \<noteq> None \<or> w_db_error w \<noteq> None
          \<or> (\<exists>e. range_bound pg_time start = Inl e) \<or> (\<exists>e. range_bound pg_time end = Inl e)"
    then show "\<exists>m. events_GET w pg_time start end tbl
        = \<lparr>status_code = 500, payload = ErrorBody m\<rparr>"
      by (rule events_GET_failure [OF assms])
  qed
qed

theorem events_GET_in_range_sorted_witness:
  "requester (signed_in ''u1'' None) = Some ''u1''
   \<and> range_bound sample_pg_time (Some ''1970-01-01T09:00:00Z'') = Inr (Some (9 * 60 * MINUTE))
   \<and> range_bound sample_pg_time None = Inr None
   \<and> events_GET (signed_in ''u1'' None) sample_pg_time (Some ''1970-01-01T09:00:00Z'') None
        [sample_row ''u1'' ''g3'' (11 * 60 * MINUTE) False,
         sample_row ''u2'' ''g4'' (10 * 60 * MINUTE) False,
         sample_row ''u1'' ''g1'' (8 * 60 * MINUTE) False,
         sample_row ''u1'' ''g2'' (9 * 60 * MINUTE) True]
       = \<lparr>status_code = 200,
          payload = EventsBody [sample_row ''u1'' ''g2'' (9 * 60 * MINUTE) True,
                                sample_row ''u1'' ''g3'' (11 * 60 * MINUTE) False]\<rparr>"
proof -
  let ?w = "signed_in ''u1'' None"
  let ?tbl = "[sample_row ''u1'' ''g3'' (11 * 60 * MINUTE) False,
         sample_row ''u2'' ''g4'' (10 * 60 * MINUTE) False,
         sample_row ''u1'' ''g1'' (8 * 60 * MINUTE) False,
         sample_row ''u1'' ''g2'' (9 * 60 * MINUTE) True]"
  have a: "requester ?w = Some ''u1''" "w_service ?w = None" "w_db_error ?w = None"
    by (simp_all add: requester_def signed_in_def authenticate_def)
  have lo: "range_bound sample_pg_time (Some ''1970-01-01T09:00:00Z'') = Inr (Some (9 * 60 * MINUTE))"
    by (simp add: range_bound_def truthy_def sample_pg_time_def sample_parse_def)
  have hi: "range_bound sample_pg_time None = Inr None"
    by (simp add: range_bound_def truthy_def)
  obtain rows where rows:
    "events_GET ?w sample_pg_time (Some ''1970-01-01T09:00:00Z'') None ?tbl
       = \<lparr>status_code = 200, payload = EventsBody rows\<rparr>"
    "sorted (map start_at rows)"
    using events_GET_in_range_sorted [OF a(1), of sample_pg_time "Some ''1970-01-01T09:00:00Z''"
        None ?tbl] a(2,3) lo hi
    by blast
  have "events_GET ?w sample_pg_time (Some ''1970-01-01T09:00:00Z'') None ?tbl
       = \<lparr>status_code = 200,
          payload = EventsBody [sample_row ''u1'' ''g2'' (9 * 60 * MINUTE) True,
                                sample_row ''u1'' ''g3'' (11 * 60 * MINUTE) False]\<rparr>"
    using rows(1) events_GET_rows [OF a lo hi, of ?tbl]
    by (simp add: sample_row_def in_range_def MINUTE_def)
  then show ?thesis using a(1) lo hi by blast
qed

text \<open>
  The claim C7 as stated, for every authenticated request, fails where the storage query
  fails. A signed-in user asks for the events from \<open>start = abc\<close>: the database rejects
  the bound, the handler throws the error of the query and answers 500, although the cache
  holds an event of the user. The same happens when the storage layer reports an error for
  a request without bounds.
\<close>

theorem events_GET_query_failure_counterexample:
  "requester (signed_in ''u1'' None) = Some ''u1''
   \<and> events_GET (signed_in ''u1'' None) sample_pg_time (Some ''abc'') None
        [sample_row ''u1'' ''g1'' 0 False]
      = \<lparr>status_code = 500,
         payload = ErrorBody ''invalid input syntax for type timestamp with time zone''\<rparr>
   \<and> requester (signed_in ''u1'' (Some NonError)) = Some ''u1''
   \<and> events_GET (signed_in ''u1'' (Some NonError)) sample_pg_time None None
        [sample_row ''u1'' ''g1'' 0 False]
      = \<lparr>status_code = 500, payload = ErrorBody ''Failed to fetch events''\<rparr>"
  by (simp add: requester_def signed_in_def authenticate_def events_GET_def events_GET_try_def
      select_events_def range_bound_def truthy_def sample_pg_time_def sample_parse_def
      message_of_def)

section \<open>Properties of the event mutation handlers\<close>

lemma required_fields_None:
  "required_fields b = None
   \<longleftrightarrow> \<not> truthy (cb_summary b) \<or> \<not> truthy (cb_startTime b) \<or> \<not> truthy (cb_endTime b)"
  by (auto simp: required_fields_def truthy_def split: option.splits)

subsection \<open>PATCH\<close>

lemma PATCH_try_written:
  assumes "PATCH_try w remote date_parse now gid body tbl = Inr (r, tbl')" "tbl' \<noteq> tbl"
  shows "\<exists>uid b u. requester w = Some uid \<and> body = Inr b \<and> remote uid gid b = None
     \<and> w_service w = None \<and> w_db_error w = None \<and> build_update date_parse now b = Inr u
     \<and> tbl' = update_events uid gid u tbl \<and> r = \<lparr>status_code = 200, payload = SuccessBody\<rparr>"
  using assms
  by (auto simp: PATCH_try_def requester_def split: sum.splits option.splits)

lemma PATCH_written:
  assumes "out_events (PATCH w remote date_parse now gid body tbl ms) \<noteq> tbl"
  shows "\<exists>uid b u. requester w = Some uid \<and> body = Inr b \<and> remote uid gid b = None
     \<and> build_update date_parse now b = Inr u
     \<and> out_events (PATCH w remote date_parse now gid body tbl ms) = update_events uid gid u tbl
     \<and> status_code (out_response (PATCH w remote date_parse now gid body tbl ms)) = 200"
proof (cases "PATCH_try w remote date_parse now gid body tbl")
  case (Inl e)
  then show ?thesis using assms by (simp add: PATCH_def)
next
  case (Inr p)
  obtain r tbl' where p: "p = (r, tbl')" by (cases p)
  have "tbl' \<noteq> tbl" using assms Inr p by (simp add: PATCH_def)
  then show ?thesis
    using PATCH_try_written [of w remote date_parse now gid body tbl r tbl'] Inr p
    by (auto simp: PATCH_def)
qed

lemma PATCH_remote_throws:
  assumes "requester w = Some uid" "body = Inr b" "remote uid gid b = Some e"
  shows "PATCH w remote date_parse now gid body tbl ms
     = \<lparr>out_response = \<lparr>status_code = 500,
                         payload = ErrorBody (message_of ''Failed to update event'' e)\<rparr>,
        out_events = tbl, out_meetings = ms, out_log = [''Update calendar event error:'']\<rparr>"
  using assms
  by (auto simp: PATCH_def PATCH_try_def requester_def split: sum.splits option.splits)

lemma PATCH_cache_write_fails:
  assumes "requester w = Some uid" "body = Inr b" "remote uid gid b = None"
    "w_service w = None" "build_update date_parse now b = Inr u" "w_db_error w = Some e"
  shows "PATCH w remote date_parse now gid body tbl ms
     = \<lparr>out_response = \<lparr>status_code = 200, payload = SuccessBody\<rparr>,
        out_events = tbl, out_meetings = ms, out_log = []\<rparr>"
  using assms
  by (auto simp: PATCH_def PATCH_try_def requester_def split: sum.splits option.splits)

lemma PATCH_unauthenticated:
  "requester w = None \<Longrightarrow> out_events (PATCH w remote date_parse now gid body tbl ms) = tbl"
  by (auto simp: PATCH_def PATCH_try_def requester_def split: sum.splits option.splits)

lemma update_events_others:
  "list_all2 (\<lambda>r r'. (\<not> targets uid gid r \<longrightarrow> r' = r)
       \<and> user_id r' = user_id r \<and> google_event_id r' = google_event_id r)
     tbl (update_events uid gid u tbl)"
  by (induction tbl) (auto simp: update_events_def apply_update_def)

lemma list_all2_same: "(\<And>x. P x x) \<Longrightarrow> list_all2 P xs xs"
  by (induction xs) auto

lemma PATCH_others:
  assumes "requester w = Some uid"
  shows "list_all2 (\<lambda>r r'. (\<not> targets uid gid r \<longrightarrow> r' = r)
       \<and> user_id r' = user_id r \<and> google_event_id r' = google_event_id r)
     tbl (out_events (PATCH w remote date_parse now gid body tbl ms))"
proof (cases "out_events (PATCH w remote date_parse now gid body tbl ms) = tbl")
  case True
  then show ?thesis by (simp add: list_all2_same)
next
  case False
  then obtain uid' u where "requester w = Some uid'"
    "out_events (PATCH w remote date_parse now gid body tbl ms) = update_events uid' gid u tbl"
    using PATCH_written [OF False] by blast
  then show ?thesis using assms update_events_others [of uid gid tbl u] by simp
qed

subsection \<open>DELETE\<close>

lemma DELETE_written:
  assumes "out_events (DELETE w remote gid tbl ms) \<noteq> tbl"
  shows "\<exists>uid. requester w = Some uid \<and> remote uid gid = None
     \<and> out_events (DELETE w remote gid tbl ms) = delete_events uid gid tbl
     \<and> status_code (out_response (DELETE w remote gid tbl ms)) = 200"
  using assms
  by (auto simp: DELETE_def DELETE_try_def requester_def split: sum.splits option.splits)

lemma DELETE_remote_throws:
  assumes "requester w = Some uid" "remote uid gid = Some e"
  shows "DELETE w remote gid tbl ms
     = \<lparr>out_response = \<lparr>status_code = 500,
                         payload = ErrorBody (message_of ''Failed to delete event'' e)\<rparr>,
        out_events = tbl, out_meetings = ms, out_log = [''Delete calendar event error:'']\<rparr>"
  using assms
  by (auto simp: DELETE_def DELETE_try_def requester_def split: sum.splits option.splits)

lemma DELETE_cache_write_fails:
  assumes "requester w = Some uid" "remote uid gid = None" "w_service w = None"
    "w_db_error w = Some e"
  shows "DELETE w remote gid tbl ms
     = \<lparr>out_response = \<lparr>status_code = 200, payload = SuccessBody\<rparr>,
        out_events = tbl, out_meetings = ms, out_log = []\<rparr>"
  using assms
  by (auto simp: DELETE_def DELETE_try_def requester_def split: sum.splits option.splits)

lemma DELETE_unauthenticated:
  "requester w = None \<Longrightarrow> out_events (DELETE w remote gid tbl ms) = tbl"
  by (auto simp: DELETE_def DELETE_try_def requester_def split: sum.splits option.splits)

lemma DELETE_others:
  assumes "requester w = Some uid"
  shows "filter (\<lambda>r. \<not> targets uid gid r) (out_events (DELETE w remote gid tbl ms))
       = filter (\<lambda>r. \<not> targets uid gid r) tbl
     \<and> set (out_events (DELETE w remote gid tbl ms)) \<subseteq> set tbl"
proof (cases "out_events (DELETE w remote gid tbl ms) = tbl")
  case True
  then show ?thesis by simp
next
  case False
  then have "out_events (DELETE w remote gid tbl ms) = delete_events uid gid tbl"
    using DELETE_written [OF False] assms by auto
  then show ?thesis by (auto simp: delete_events_def)
qed

subsection \<open>POST\<close>

lemma POST_try_events:
  assumes "POST_try w remote date_parse dflt body tbl ms = Inr out"
  shows "out_events out = tbl
     \<or> (\<exists>uid b summary startTime endTime result s en.
          requester w = Some uid \<and> body = Inr b
          \<and> required_fields b = Some (summary, startTime, endTime)
          \<and> remote uid (event_input_of b summary startTime endTime) = Inr result
          \<and> w_db_error w = None
          \<and> out_events out = tbl @ [new_row dflt uid b summary result s en]
          \<and> status_code (out_response out) = 200)"
  using assms
  by (auto simp: POST_try_def requester_def split: sum.splits option.splits) blast+

lemma POST_written:
  assumes "out_events (POST w remote date_parse dflt body tbl ms) \<noteq> tbl"
  shows "\<exists>uid b summary startTime endTime result s en.
          requester w = Some uid \<and> body = Inr b
          \<and> required_fields b = Some (summary, startTime, endTime)
          \<and> remote uid (event_input_of b summary startTime endTime) = Inr result
          \<and> out_events (POST w remote date_parse dflt body tbl ms)
              = tbl @ [new_row dflt uid b summary result s en]
          \<and> status_code (out_response (POST w remote date_parse dflt body tbl ms)) = 200"
proof (cases "POST_try w remote date_parse dflt body tbl ms")
  case (Inl e)
  then show ?thesis using assms by (simp add: POST_def)
next
  case (Inr out)
  then show ?thesis
    using POST_try_events [OF Inr] assms by (simp add: POST_def) blast
qed

lemma POST_remote_throws:
  assumes "requester w = Some uid" "body = Inr b"
    "required_fields b = Some (summary, startTime, endTime)"
    "remote uid (event_input_of b summary startTime endTime) = Inl e"
  shows "POST w remote date_parse dflt body tbl ms
     = \<lparr>out_response = \<lparr>status_code = 500,
                         payload = ErrorBody (message_of ''Failed to create event'' e)\<rparr>,
        out_events = tbl, out_meetings = ms, out_log = [''Create event error:'']\<rparr>"
  using assms
  by (auto simp: POST_def POST_try_def requester_def split: sum.splits option.splits)

lemma POST_cache_write_fails:
  assumes "requester w = Some uid" "body = Inr b"
    "required_fields b = Some (summary, startTime, endTime)"
    "remote uid (event_input_of b summary startTime endTime) = Inr result"
    "w_service w = None" "toISOString date_parse startTime = Inr s"
    "toISOString date_parse endTime = Inr en" "w_db_error w = Some e"
  shows "out_response (POST w remote date_parse dflt body tbl ms)
       = \<lparr>status_code = 200, payload = CreatedBody (googleEventId result) (meetLink result)\<rparr>
     \<and> out_events (POST w remote date_parse dflt body tbl ms) = tbl
     \<and> out_log (POST w remote date_parse dflt body tbl ms) = [''Error caching event:'']"
  using assms
  by (auto simp: POST_def POST_try_def requester_def split: sum.splits option.splits)

lemma POST_caught:
  "POST_try w remote date_parse dflt body tbl ms = Inl e \<Longrightarrow>
   POST w remote date_parse dflt body tbl ms
     = \<lparr>out_response = \<lparr>status_code = 500,
                         payload = ErrorBody (message_of ''Failed to create event'' e)\<rparr>,
        out_events = tbl, out_meetings = ms, out_log = [''Create event error:'']\<rparr>"
  by (simp add: POST_def)

lemma POST_service_throws:
  assumes "requester w = Some uid" "body = Inr b"
    "required_fields b = Some (summary, startTime, endTime)"
    "remote uid (event_input_of b summary startTime endTime) = Inr result"
    "w_service w = Some e"
  shows "POST_try w remote date_parse dflt body tbl ms = Inl e"
  using assms
  by (auto simp: POST_try_def requester_def split: sum.splits option.splits)

lemma POST_unauthorized:
  assumes "w_auth w = Inr a" "authenticate a = None"
  shows "POST w remote date_parse dflt body tbl ms
     = \<lparr>out_response = \<lparr>status_code = 401, payload = ErrorBody ''Unauthorized''\<rparr>,
        out_events = tbl, out_meetings = ms, out_log = []\<rparr>"
  using assms by (simp add: POST_def POST_try_def)

lemma POST_missing_fields:
  assumes "requester w = Some uid" "body = Inr b" "required_fields b = None"
  shows "POST w remote date_parse dflt body tbl ms
     = \<lparr>out_response =
          \<lparr>status_code = 400,
           payload = ErrorBody ''Missing required fields: summary, startTime, endTime''\<rparr>,
        out_events = tbl, out_meetings = ms, out_log = []\<rparr>"
  using assms
  by (auto simp: POST_def POST_try_def requester_def split: sum.splits option.splits)

lemma POST_status:
  "status_code (out_response (POST w remote date_parse dflt body tbl ms)) \<in> {200, 400, 401, 500}"
  by (auto simp: POST_def POST_try_def split: sum.splits option.splits prod.splits)

subsection \<open>The claims on the mutation handlers\<close>

text \<open>
  Claim C8. The update and the delete of the cache name their rows by the pair of owner and
  remote event id. For a request of user \<open>uid\<close> on the remote id \<open>gid\<close>: after PATCH the
  table has the same rows in the same places, every row with another owner or another remote
  id is as it was, and no row changes its owner or its remote id; after DELETE the rows with
  another owner or another remote id are all there, in their order, and nothing is added;
  POST only adds rows, owned by the requesting user. A request that does not pass the
  authentication guard leaves the table as it was.
\<close>

theorem cache_rows_identified_by_owner_and_remote_id:
  "(requester w = None \<longrightarrow>
      out_events (PATCH w remote_u date_parse now gid body tbl ms) = tbl
      \<and> out_events (DELETE w remote_d gid tbl ms) = tbl)
   \<and> (\<forall>uid. requester w = Some uid \<longrightarrow>
        list_all2 (\<lambda>r r'. (\<not> targets uid gid r \<longrightarrow> r' = r)
             \<and> user_id r' = user_id r \<and> google_event_id r' = google_event_id r)
           tbl (out_events (PATCH w remote_u date_parse now gid body tbl ms))
        \<and> filter (\<lambda>r. \<not> targets uid gid r) (out_events (DELETE w remote_d gid tbl ms))
            = filter (\<lambda>r. \<not> targets uid gid r) tbl
        \<and> set (out_events (DELETE w remote_d gid tbl ms)) \<subseteq> set tbl
        \<and> (\<exists>rows. out_events (POST w remote_c date_parse dflt cbody tbl ms) = tbl @ rows
              \<and> list_all (\<lambda>r. user_id r = uid) rows))"
proof -
  have post: "\<exists>rows. out_events (POST w remote_c date_parse dflt cbody tbl ms) = tbl @ rows
              \<and> list_all (\<lambda>r. user_id r = uid) rows"
    if u: "requester w = Some uid" for uid
  proof (cases "out_events (POST w remote_c date_parse dflt cbody tbl ms) = tbl")
    case True
    then have "out_events (POST w remote_c date_parse dflt cbody tbl ms) = tbl @ []
        \<and> list_all (\<lambda>r. user_id r = uid) []"
      by simp
    then show ?thesis by blast
  next
    case False
    obtain uid' b summary result s en where
      "requester w = Some uid'"
      "out_events (POST w remote_c date_parse dflt cbody tbl ms)
         = tbl @ [new_row dflt uid' b summary result s en]"
      using POST_written [OF False] by blast
    then have "out_events (POST w remote_c date_parse dflt cbody tbl ms)
         = tbl @ [new_row dflt uid b summary result s en]
        \<and> list_all (\<lambda>r. user_id r = uid) [new_row dflt uid b summary result s en]"
      using u by (simp add: new_row_def)
    then show ?thesis by blast
  qed
  show ?thesis
    using PATCH_unauthenticated [of w remote_u date_parse now gid body tbl ms]
      DELETE_unauthenticated [of w remote_d gid tbl ms]
      PATCH_others [where w = w and gid = gid and remote = remote_u and date_parse = date_parse
        and now = now and body = body and tbl = tbl and ms = ms]
      DELETE_others [where w = w and gid = gid and remote = remote_d and tbl = tbl and ms = ms]
      post
    by blast
qed

theorem cache_rows_identified_by_owner_and_remote_id_witness:
  "requester (signed_in ''u1'' None) = Some ''u1''
   \<and> filter (\<lambda>r. \<not> targets ''u1'' ''g1'' r)
       (out_events (DELETE (signed_in ''u1'' None) (\<lambda>uid gid. None) ''g1''
          [sample_row ''u1'' ''g1'' 0 False, sample_row ''u2'' ''g1'' 0 False,
           sample_row ''u1'' ''g2'' 0 False] []))
      = [sample_row ''u2'' ''g1'' 0 False, sample_row ''u1'' ''g2'' 0 False]
   \<and> out_events (DELETE (signed_in ''u1'' None) (\<lambda>uid gid. None) ''g1''
          [sample_row ''u1'' ''g1'' 0 False, sample_row ''u2'' ''g1'' 0 False,
           sample_row ''u1'' ''g2'' 0 False] [])
      = [sample_row ''u2'' ''g1'' 0 False, sample_row ''u1'' ''g2'' 0 False]"
proof -
  let ?w = "signed_in ''u1'' None"
  let ?tbl = "[sample_row ''u1'' ''g1'' 0 False, sample_row ''u2'' ''g1'' 0 False,
           sample_row ''u1'' ''g2'' 0 False]"
  have u: "requester ?w = Some ''u1''"
    by (simp add: requester_def signed_in_def authenticate_def)
  have "filter (\<lambda>r. \<not> targets ''u1'' ''g1'' r)
          (out_events (DELETE ?w (\<lambda>uid gid. None) ''g1'' ?tbl []))
      = filter (\<lambda>r. \<not> targets ''u1'' ''g1'' r) ?tbl"
    using cache_rows_identified_by_owner_and_remote_id
      [of ?w "\<lambda>uid gid b. None" sample_parse 0 "''g1''" "Inl NonError" ?tbl "[]"
          "\<lambda>uid gid. None" "\<lambda>uid i. Inl NonError" "sample_row ''u1'' ''g0'' 0 False"
          "Inl NonError"] u
    by blast
  moreover have "filter (\<lambda>r. \<not> targets ''u1'' ''g1'' r) ?tbl
      = [sample_row ''u2'' ''g1'' 0 False, sample_row ''u1'' ''g2'' 0 False]"
    by (simp add: targets_def sample_row_def)
  moreover have "out_events (DELETE ?w (\<lambda>uid gid. None) ''g1'' ?tbl [])
      = [sample_row ''u2'' ''g1'' 0 False, sample_row ''u1'' ''g2'' 0 False]"
    by (simp add: DELETE_def DELETE_try_def signed_in_def authenticate_def delete_events_def
        targets_def sample_row_def)
  ultimately show ?thesis using u by simp
qed

text \<open>
  Claim C6, as amended. In the create, update and delete handlers the cache is written only
  after the call to the remote calendar has returned: when the remote call throws, the
  handler answers 500 and the cache is as it was; a cache that differs after the request
  shows that the remote call returned. When the remote call succeeds and the cache write
  fails, the request still reports success and the cache is as it was; the create handler
  logs the failure.
\<close>

theorem cache_written_only_after_remote_success:
  "(\<forall>uid b e. requester w = Some uid \<and> body = Inr b \<and> remote_u uid gid b = Some e \<longrightarrow>
       status_code (out_response (PATCH w remote_u date_parse now gid body tbl ms)) = 500
       \<and> out_events (PATCH w remote_u date_parse now gid body tbl ms) = tbl)
   \<and> (out_events (PATCH w remote_u date_parse now gid body tbl ms) \<noteq> tbl \<longrightarrow>
       (\<exists>uid b. requester w = Some uid \<and> body = Inr b \<and> remote_u uid gid b = None))
   \<and> (\<forall>uid b u e. requester w = Some uid \<and> body = Inr b \<and> remote_u uid gid b = None
         \<and> w_service w = None \<and> build_update date_parse now b = Inr u \<and> w_db_error w = Some e \<longrightarrow>
       out_response (PATCH w remote_u date_parse now gid body tbl ms)
         = \<lparr>status_code = 200, payload = SuccessBody\<rparr>
       \<and> out_events (PATCH w remote_u date_parse now gid body tbl ms) = tbl)
   \<and> (\<forall>uid e. requester w = Some uid \<and> remote_d uid gid = Some e \<longrightarrow>
       status_code (out_response (DELETE w remote_d gid tbl ms)) = 500
       \<and> out_events (DELETE w remote_d gid tbl ms) = tbl)
   \<and> (out_events (DELETE w remote_d gid tbl ms) \<noteq> tbl \<longrightarrow>
       (\<exists>uid. requester w = Some uid \<and> remote_d uid gid = None))
   \<and> (\<forall>uid e. requester w = Some uid \<and> remote_d uid gid = None \<and> w_service w = None
         \<and> w_db_error w = Some e \<longrightarrow>
       out_response (DELETE w remote_d gid tbl ms) = \<lparr>status_code = 200, payload = SuccessBody\<rparr>
       \<and> out_events (DELETE w remote_d gid tbl ms) = tbl)
   \<and> (\<forall>uid b summary startTime endTime e. requester w = Some uid \<and> cbody = Inr b
         \<and> required_fields b = Some (summary, startTime, endTime)
         \<and> remote_c uid (event_input_of b summary startTime endTime) = Inl e \<longrightarrow>
       status_code (out_response (POST w remote_c date_parse dflt cbody tbl ms)) = 500
       \<and> out_events (POST w remote_c date_parse dflt cbody tbl ms) = tbl)
   \<and> (out_events (POST w remote_c date_parse dflt cbody tbl ms) \<noteq> tbl \<longrightarrow>
       (\<exists>uid b summary startTime endTime result. requester w = Some uid \<and> cbody = Inr b
          \<and> required_fields b = Some (summary, startTime, endTime)
          \<and> remote_c uid (event_input_of b summary startTime endTime) = Inr result))
   \<and> (\<forall>uid b summary startTime endTime result s en e. requester w = Some uid \<and> cbody = Inr b
         \<and> required_fields b = Some (summary, startTime, endTime)
         \<and> remote_c uid (event_input_of b summary startTime endTime) = Inr result
         \<and> w_service w = None \<and> toISOString date_parse startTime = Inr s
         \<and> toISOString date_parse endTime = Inr en \<and> w_db_error w = Some e \<longrightarrow>
       out_response (POST w remote_c date_parse dflt cbody tbl ms)
         = \<lparr>status_code = 200, payload = CreatedBody (googleEventId result) (meetLink result)\<rparr>
       \<and> out_events (POST w remote_c date_parse dflt cbody tbl ms) = tbl
       \<and> out_log (POST w remote_c date_parse dflt cbody tbl ms) = [''Error caching event:''])"
proof -
  have p1: "\<forall>uid b e. requester w = Some uid \<and> body = Inr b \<and> remote_u uid gid b = Some e \<longrightarrow>
       status_code (out_response (PATCH w remote_u date_parse now gid body tbl ms)) = 500
       \<and> out_events (PATCH w remote_u date_parse now gid body tbl ms) = tbl"
    by (simp add: PATCH_remote_throws)
  have p2: "out_events (PATCH w remote_u date_parse now gid body tbl ms) \<noteq> tbl \<longrightarrow>
       (\<exists>uid b. requester w = Some uid \<and> body = Inr b \<and> remote_u uid gid b = None)"
    using PATCH_written [of w remote_u date_parse now gid body tbl ms] by blast
  have p3: "\<forall>uid b u e. requester w = Some uid \<and> body = Inr b \<and> remote_u uid gid b = None
         \<and> w_service w = None \<and> build_update date_parse now b = Inr u \<and> w_db_error w = Some e \<longrightarrow>
       out_response (PATCH w remote_u date_parse now gid body tbl ms)
         = \<lparr>status_code = 200, payload = SuccessBody\<rparr>
       \<and> out_events (PATCH w remote_u date_parse now gid body tbl ms) = tbl"
    by (simp add: PATCH_cache_write_fails)
  have d1: "\<forall>uid e. requester w = Some uid \<and> remote_d uid gid = Some e \<longrightarrow>
       status_code (out_response (DELETE w remote_d gid tbl ms)) = 500
       \<and> out_events (DELETE w remote_d gid tbl ms) = tbl"
    by (simp add: DELETE_remote_throws)
  have d2: "out_events (DELETE w remote_d gid tbl ms) \<noteq> tbl \<longrightarrow>
       (\<exists>uid. requester w = Some uid \<and> remote_d uid gid = None)"
    using DELETE_written [of w remote_d gid tbl ms] by blast
  have d3: "\<forall>uid e. requester w = Some uid \<and> remote_d uid gid = None \<and> w_service w = None
         \<and> w_db_error w = Some e \<longrightarrow>
       out_response (DELETE w remote_d gid tbl ms) = \<lparr>status_code = 200, payload = SuccessBody\<rparr>
       \<and> out_events (DELETE w remote_d gid tbl ms) = tbl"
    by (simp add: DELETE_cache_write_fails)
  have c1: "\<forall>uid b summary startTime endTime e. requester w = Some uid \<and> cbody = Inr b
         \<and> required_fields b = Some (summary, startTime, endTime)
         \<and> remote_c uid (event_input_of b summary startTime endTime) = Inl e \<longrightarrow>
       status_code (out_response (POST w remote_c date_parse dflt cbody tbl ms)) = 500
       \<and> out_events (POST w remote_c date_parse dflt cbody tbl ms) = tbl"
    by (simp add: POST_remote_throws)
  have c2: "out_events (POST w remote_c date_parse dflt cbody tbl ms) \<noteq> tbl \<longrightarrow>
       (\<exists>uid b summary startTime endTime result. requester w = Some uid \<and> cbody = Inr b
          \<and> required_fields b = Some (summary, startTime, endTime)
          \<and> remote_c uid (event_input_of b summary startTime endTime) = Inr result)"
    using POST_written [of w remote_c date_parse dflt cbody tbl ms] by blast
  have c3: "\<forall>uid b summary startTime endTime result s en e. requester w = Some uid \<and> cbody = Inr b
         \<and> required_fields b = Some (summary, startTime, endTime)
         \<and> remote_c uid (event_input_of b summary startTime endTime) = Inr result
         \<and> w_service w = None \<and> toISOString date_parse startTime = Inr s
         \<and> toISOString date_parse endTime = Inr en \<and> w_db_error w = Some e \<longrightarrow>
       out_response (POST w remote_c date_parse dflt cbody tbl ms)
         = \<lparr>status_code = 200, payload = CreatedBody (googleEventId result) (meetLink result)\<rparr>
       \<and> out_events (POST w remote_c date_parse dflt cbody tbl ms) = tbl
       \<and> out_log (POST w remote_c date_parse dflt cbody tbl ms) = [''Error caching event:'']"
  proof (intro allI impI, elim conjE)
    fix uid b summary startTime endTime result s en e
    assume h: "requester w = Some uid" "cbody = Inr b"
      "required_fields b = Some (summary, startTime, endTime)"
      "remote_c uid (event_input_of b summary startTime endTime) = Inr result"
      "w_service w = None" "toISOString date_parse startTime = Inr s"
      "toISOString date_parse endTime = Inr en" "w_db_error w = Some e"
    show "out_response (POST w remote_c date_parse dflt cbody tbl ms)
         = \<lparr>status_code = 200, payload = CreatedBody (googleEventId result) (meetLink result)\<rparr>
       \<and> out_events (POST w remote_c date_parse dflt cbody tbl ms) = tbl
       \<and> out_log (POST w remote_c date_parse dflt cbody tbl ms) = [''Error caching event:'']"
      by (rule POST_cache_write_fails [where remote = remote_c, OF h])
  qed
  show ?thesis
    using p1 p2 p3 d1 d2 d3 c1 c2 c3 by (intro conjI)
qed

theorem cache_written_only_after_remote_success_witness:
  "requester (signed_in ''u1'' (Some (Error ''db down''))) = Some ''u1''
   \<and> required_fields (sample_body (Some ''Lunch''))
       = Some (''Lunch'', ''1970-01-01T09:00:00Z'', ''1970-01-01T10:00:00Z'')
   \<and> out_response (POST (signed_in ''u1'' (Some (Error ''db down'')))
         (\<lambda>uid i. Inr \<lparr>googleEventId = ''g9'', meetLink = None\<rparr>) sample_parse
         (sample_row [] [] 0 False) (Inr (sample_body (Some ''Lunch'')))
         [sample_row ''u1'' ''g1'' 0 False] [])
       = \<lparr>status_code = 200, payload = CreatedBody ''g9'' None\<rparr>
   \<and> out_events (POST (signed_in ''u1'' (Some (Error ''db down'')))
         (\<lambda>uid i. Inr \<lparr>googleEventId = ''g9'', meetLink = None\<rparr>) sample_parse
         (sample_row [] [] 0 False) (Inr (sample_body (Some ''Lunch'')))
         [sample_row ''u1'' ''g1'' 0 False] [])
       = [sample_row ''u1'' ''g1'' 0 False]
   \<and> out_log (POST (signed_in ''u1'' (Some (Error ''db down'')))
         (\<lambda>uid i. Inr \<lparr>googleEventId = ''g9'', meetLink = None\<rparr>) sample_parse
         (sample_row [] [] 0 False) (Inr (sample_body (Some ''Lunch'')))
         [sample_row ''u1'' ''g1'' 0 False] [])
       = [''Error caching event:'']"
proof -
  let ?w = "signed_in ''u1'' (Some (Error ''db down''))"
  let ?rc = "\<lambda>(uid :: string) (i :: event_input). (Inr \<lparr>googleEventId = ''g9'', meetLink = None\<rparr> :: exn + remote_result)"
  let ?b = "sample_body (Some ''Lunch'')"
  let ?tbl = "[sample_row ''u1'' ''g1'' 0 False]"
  have h: "requester ?w = Some ''u1''" "(Inr ?b :: exn + create_body) = Inr ?b"
    "required_fields ?b = Some (''Lunch'', ''1970-01-01T09:00:00Z'', ''1970-01-01T10:00:00Z'')"
    "?rc ''u1'' (event_input_of ?b ''Lunch'' ''1970-01-01T09:00:00Z'' ''1970-01-01T10:00:00Z'')
       = Inr \<lparr>googleEventId = ''g9'', meetLink = None\<rparr>"
    "w_service ?w = None"
    "toISOString sample_parse ''1970-01-01T09:00:00Z'' = Inr (9 * 60 * MINUTE)"
    "toISOString sample_parse ''1970-01-01T10:00:00Z'' = Inr (10 * 60 * MINUTE)"
    "w_db_error ?w = Some (Error ''db down'')"
    by (simp_all add: requester_def signed_in_def authenticate_def required_fields_def
        sample_body_def toISOString_def sample_parse_def)
  have "out_response (POST ?w ?rc sample_parse (sample_row [] [] 0 False) (Inr ?b) ?tbl [])
         = \<lparr>status_code = 200,
            payload = CreatedBody (googleEventId \<lparr>googleEventId = ''g9'', meetLink = None\<rparr>)
                        (meetLink \<lparr>googleEventId = ''g9'', meetLink = None\<rparr>)\<rparr>
       \<and> out_events (POST ?w ?rc sample_parse (sample_row [] [] 0 False) (Inr ?b) ?tbl []) = ?tbl
       \<and> out_log (POST ?w ?rc sample_parse (sample_row [] [] 0 False) (Inr ?b) ?tbl [])
           = [''Error caching event:'']"
    using cache_written_only_after_remote_success
      [where w = ?w and remote_c = ?rc and date_parse = sample_parse
         and dflt = "sample_row [] [] 0 False" and cbody = "Inr ?b" and tbl = ?tbl
         and ms = "[]" and remote_u = "\<lambda>uid gid b. None" and remote_d = "\<lambda>uid gid. None"
         and gid = "[]" and now = 0 and body = "Inl NonError"] h
    by blast
  then show ?thesis using h(1,3) by simp
qed

text \<open>
  The claim C6 as stated fails for the update and the delete handler: they await the cache
  statement and drop its result, so a failure of the cache write is not logged. Here the
  remote call succeeds, the storage layer reports an error, the answer is 200 and nothing
  has been logged.
\<close>

theorem cache_write_failure_not_logged_counterexample:
  "requester (signed_in ''u1'' (Some (Error ''db down''))) = Some ''u1''
   \<and> w_db_error (signed_in ''u1'' (Some (Error ''db down''))) = Some (Error ''db down'')
   \<and> PATCH (signed_in ''u1'' (Some (Error ''db down''))) (\<lambda>uid gid b. None) sample_parse 5 ''g1''
        (Inr \<lparr>pb_summary = Some ''Lunch'', pb_description = None, pb_startTime = None,
              pb_endTime = None\<rparr>)
        [sample_row ''u1'' ''g1'' 0 False] []
      = \<lparr>out_response = \<lparr>status_code = 200, payload = SuccessBody\<rparr>,
         out_events = [sample_row ''u1'' ''g1'' 0 False], out_meetings = [], out_log = []\<rparr>
   \<and> DELETE (signed_in ''u1'' (Some (Error ''db down''))) (\<lambda>uid gid. None) ''g1''
        [sample_row ''u1'' ''g1'' 0 False] []
      = \<lparr>out_response = \<lparr>status_code = 200, payload = SuccessBody\<rparr>,
         out_events = [sample_row ''u1'' ''g1'' 0 False], out_meetings = [], out_log = []\<rparr>"
  by (simp add: requester_def signed_in_def authenticate_def PATCH_def PATCH_try_def
      DELETE_def DELETE_try_def build_update_def optional_time_def truthy_def)

text \<open>
  Claim C9. POST /api/calendar/create-event answers 401 to a request that does not pass the
  authentication guard; 400 to an authenticated request whose body lacks a truthy
  \<open>summary\<close>, \<open>startTime\<close> or \<open>endTime\<close>; and whatever is thrown inside the handler, by
  the remote calendar, by the storage layer or by the reading of the body, is caught and
  answered with 500 and a message, the message of the error or a fixed text. The handler
  always returns a response, with one of the statuses 200, 400, 401 and 500.
\<close>

theorem create_event_error_statuses:
  "(\<forall>a. w_auth w = Inr a \<and> authenticate a = None \<longrightarrow>
       out_response (POST w remote date_parse dflt body tbl ms)
         = \<lparr>status_code = 401, payload = ErrorBody ''Unauthorized''\<rparr>)
   \<and> (\<forall>uid b. requester w = Some uid \<and> body = Inr b
         \<and> (\<not> truthy (cb_summary b) \<or> \<not> truthy (cb_startTime b) \<or> \<not> truthy (cb_endTime b)) \<longrightarrow>
       out_response (POST w remote date_parse dflt body tbl ms)
         = \<lparr>status_code = 400,
            payload = ErrorBody ''Missing required fields: summary, startTime, endTime''\<rparr>)
   \<and> (\<forall>e. POST_try w remote date_parse dflt body tbl ms = Inl e \<longrightarrow>
       out_response (POST w remote date_parse dflt body tbl ms)
         = \<lparr>status_code = 500, payload = ErrorBody (message_of ''Failed to create event'' e)\<rparr>)
   \<and> (\<forall>uid b summary startTime endTime e. requester w = Some uid \<and> body = Inr b
         \<and> required_fields b = Some (summary, startTime, endTime)
         \<and> remote uid (event_input_of b summary startTime endTime) = Inl e \<longrightarrow>
       out_response (POST w remote date_parse dflt body tbl ms)
         = \<lparr>status_code = 500, payload = ErrorBody (message_of ''Failed to create event'' e)\<rparr>)
   \<and> (\<forall>uid b summary startTime endTime result e. requester w = Some uid \<and> body = Inr b
         \<and> required_fields b = Some (summary, startTime, endTime)
         \<and> remote uid (event_input_of b summary startTime endTime) = Inr result
         \<and> w_service w = Some e \<longrightarrow>
       out_response (POST w remote date_parse dflt body tbl ms)
         = \<lparr>status_code = 500, payload = ErrorBody (message_of ''Failed to create event'' e)\<rparr>)
   \<and> (\<forall>e. w_auth w = Inl e \<longrightarrow>
       out_response (POST w remote date_parse dflt body tbl ms)
         = \<lparr>status_code = 500, payload = ErrorBody (message_of ''Failed to create event'' e)\<rparr>)
   \<and> status_code (out_response (POST w remote date_parse dflt body tbl ms)) \<in> {200, 400, 401, 500}"
proof -
  have s401: "\<forall>a. w_auth w = Inr a \<and> authenticate a = None \<longrightarrow>
       out_response (POST w remote date_parse dflt body tbl ms)
         = \<lparr>status_code = 401, payload = ErrorBody ''Unauthorized''\<rparr>"
    by (simp add: POST_unauthorized)
  have s400: "\<forall>uid b. requester w = Some uid \<and> body = Inr b
         \<and> (\<not> truthy (cb_summary b) \<or> \<not> truthy (cb_startTime b) \<or> \<not> truthy (cb_endTime b)) \<longrightarrow>
       out_response (POST w remote date_parse dflt body tbl ms)
         = \<lparr>status_code = 400,
            payload = ErrorBody ''Missing required fields: summary, startTime, endTime''\<rparr>"
  proof (intro allI impI, elim conjE)
    fix uid b
    assume h: "requester w = Some uid" "body = Inr b"
      and m: "\<not> truthy (cb_summary b) \<or> \<not> truthy (cb_startTime b) \<or> \<not> truthy (cb_endTime b)"
    have "required_fields b = None" using m by (simp add: required_fields_None)
    then show "out_response (POST w remote date_parse dflt body tbl ms)
         = \<lparr>status_code = 400,
            payload = ErrorBody ''Missing required fields: summary, startTime, endTime''\<rparr>"
      using POST_missing_fields [where remote = remote, OF h] by simp
  qed
  have caught: "\<forall>e. POST_try w remote date_parse dflt body tbl ms = Inl e \<longrightarrow>
       out_response (POST w remote date_parse dflt body tbl ms)
         = \<lparr>status_code = 500, payload = ErrorBody (message_of ''Failed to create event'' e)\<rparr>"
    by (simp add: POST_caught)
  have rem: "\<forall>uid b summary startTime endTime e. requester w = Some uid \<and> body = Inr b
         \<and> required_fields b = Some (summary, startTime, endTime)
         \<and> remote uid (event_input_of b summary startTime endTime) = Inl e \<longrightarrow>
       out_response (POST w remote date_parse dflt body tbl ms)
         = \<lparr>status_code = 500, payload = ErrorBody (message_of ''Failed to create event'' e)\<rparr>"
    by (simp add: POST_remote_throws)
  have svc: "\<forall>uid b summary startTime endTime result e. requester w = Some uid \<and> body = Inr b
         \<and> required_fields b = Some (summary, startTime, endTime)
         \<and> remote uid (event_input_of b summary startTime endTime) = Inr result
         \<and> w_service w = Some e \<longrightarrow>
       out_response (POST w remote date_parse dflt body tbl ms)
         = \<lparr>status_code = 500, payload = ErrorBody (message_of ''Failed to create event'' e)\<rparr>"
  proof (intro allI impI, elim conjE)
    fix uid b summary startTime endTime result e
    assume h: "requester w = Some uid" "body = Inr b"
      "required_fields b = Some (summary, startTime, endTime)"
      "remote uid (event_input_of b summary startTime endTime) = Inr result"
      "w_service w = Some e"
    have "POST_try w remote date_parse dflt body tbl ms = Inl e"
      by (rule POST_service_throws [where remote = remote, OF h])
    then show "out_response (POST w remote date_parse dflt body tbl ms)
         = \<lparr>status_code = 500, payload = ErrorBody (message_of ''Failed to create event'' e)\<rparr>"
      by (simp add: POST_caught)
  qed
  have auth: "\<forall>e. w_auth w = Inl e \<longrightarrow>
       out_response (POST w remote date_parse dflt body tbl ms)
         = \<lparr>status_code = 500, payload = ErrorBody (message_of ''Failed to create event'' e)\<rparr>"
    by (simp add: POST_def POST_try_def)
  show ?thesis
    using s401 s400 caught rem svc auth POST_status [of w remote date_parse dflt body tbl ms]
    by (intro conjI)
qed

theorem create_event_error_statuses_witness:
  "out_response (POST \<lparr>w_auth = Inr \<lparr>auth_user = None, auth_error = False\<rparr>, w_service = None,
         w_db_error = None, w_db_error2 = None\<rparr>
       (\<lambda>uid i. Inl (Error ''quota exceeded'')) sample_parse (sample_row [] [] 0 False)
       (Inr (sample_body (Some ''Lunch''))) [] [])
     = \<lparr>status_code = 401, payload = ErrorBody ''Unauthorized''\<rparr>
   \<and> out_response (POST (signed_in ''u1'' None)
       (\<lambda>uid i. Inl (Error ''quota exceeded'')) sample_parse (sample_row [] [] 0 False)
       (Inr (sample_body None)) [] [])
     = \<lparr>status_code = 400,
        payload = ErrorBody ''Missing required fields: summary, startTime, endTime''\<rparr>
   \<and> out_response (POST (signed_in ''u1'' None)
       (\<lambda>uid i. Inl (Error ''quota exceeded'')) sample_parse (sample_row [] [] 0 False)
       (Inr (sample_body (Some ''Lunch''))) [] [])
     = \<lparr>status_code = 500, payload = ErrorBody ''quota exceeded''\<rparr>"
proof -
  let ?anon = "\<lparr>w_auth = Inr \<lparr>auth_user = None, auth_error = False\<rparr>, w_service = None,
         w_db_error = None, w_db_error2 = None\<rparr>"
  let ?w = "signed_in ''u1'' None"
  let ?remote = "\<lambda>(uid :: string) (i :: event_input). (Inl (Error ''quota exceeded'') :: exn + remote_result)"
  let ?dflt = "sample_row [] [] 0 False"
  have a: "w_auth ?anon = Inr \<lparr>auth_user = None, auth_error = False\<rparr>
      \<and> authenticate \<lparr>auth_user = None, auth_error = False\<rparr> = None"
    by (simp add: authenticate_def)
  have r401: "out_response (POST ?anon ?remote sample_parse ?dflt
       (Inr (sample_body (Some ''Lunch''))) [] [])
     = \<lparr>status_code = 401, payload = ErrorBody ''Unauthorized''\<rparr>"
    using create_event_error_statuses
      [where w = ?anon and remote = ?remote and date_parse = sample_parse and dflt = ?dflt
         and body = "Inr (sample_body (Some ''Lunch''))" and tbl = "[]" and ms = "[]"] a
    by blast
  have b: "requester ?w = Some ''u1''"
    "\<not> truthy (cb_summary (sample_body None))"
    "required_fields (sample_body (Some ''Lunch''))
       = Some (''Lunch'', ''1970-01-01T09:00:00Z'', ''1970-01-01T10:00:00Z'')"
    by (simp_all add: requester_def signed_in_def authenticate_def truthy_def sample_body_def
        required_fields_def)
  have r400: "out_response (POST ?w ?remote sample_parse ?dflt (Inr (sample_body None)) [] [])
     = \<lparr>status_code = 400,
        payload = ErrorBody ''Missing required fields: summary, startTime, endTime''\<rparr>"
    using create_event_error_statuses
      [where w = ?w and remote = ?remote and date_parse = sample_parse and dflt = ?dflt
         and body = "Inr (sample_body None)" and tbl = "[]" and ms = "[]"] b(1,2)
    by blast
  have r500: "out_response (POST ?w ?remote sample_parse ?dflt
       (Inr (sample_body (Some ''Lunch''))) [] [])
     = \<lparr>status_code = 500,
        payload = ErrorBody (message_of ''Failed to create event'' (Error ''quota exceeded''))\<rparr>"
    using create_event_error_statuses
      [where w = ?w and remote = ?remote and date_parse = sample_parse and dflt = ?dflt
         and body = "Inr (sample_body (Some ''Lunch''))" and tbl = "[]" and ms = "[]"] b(1,3)
    by blast
  show ?thesis
    using r401 r400 r500 by (simp add: message_of_def)
qed

section \<open>Private events\<close>



subsection \<open>What the sync stores\<close>


lemma cache_row_targets: "targets uid gid (cache_row dflt uid now re) \<longleftrightarrow> re_id re = gid"
  by (simp add: targets_def cache_row_def)












subsection \<open>What the page shows\<close>





section \<open>Rate limit of the sync\<close>

lemma sync_POST_success:
  assumes "sync_POST cooldown w fetch dflt now st = (r, st')" "status_code r = 200"
    "requester w = Some uid"
  shows "ss_last_synced st' uid = Some now"
  using assms
  by (auto simp: sync_POST_def requester_def split: sum.splits option.splits if_splits)

lemma sync_POST_limited:
  assumes "requester w = Some uid" "ss_last_synced st uid = Some t" "now - t < cooldown"
  shows "sync_POST cooldown w fetch dflt now st
     = (\<lparr>status_code = 429, payload = ErrorBody ''Synced recently''\<rparr>, st)"
  using assms
  by (auto simp: sync_POST_def requester_def within_cooldown_def split: sum.splits)

text \<open>
  Claim C5. When a call of POST /api/calendar/sync by a user has succeeded at \<open>t1\<close>, a
  second call by the same user at \<open>t2\<close> inside the cooldown window is answered with
  status 429 and performs no sync: the cache and the recorded times are as they were,
  whatever the remote calendar would have returned, and whatever has happened to the cache
  in between. On the page, \<open>handleSync\<close> answers a 429 with its message and does not
  reload the events.
\<close>

theorem second_sync_within_cooldown_rejected:
  assumes "requester w1 = Some uid" and "requester w2 = Some uid"
    and "sync_POST cooldown w1 fetch1 dflt t1 st0 = (r1, st1)" and "status_code r1 = 200"
    and "ss_last_synced st2 uid = ss_last_synced st1 uid"
    and "t1 \<le> t2" and "t2 < t1 + cooldown"
  shows "sync_POST cooldown w2 fetch2 dflt2 t2 st2
       = (\<lparr>status_code = 429, payload = ErrorBody ''Synced recently''\<rparr>, st2)
    \<and> handleSync (Inr (status_code (fst (sync_POST cooldown w2 fetch2 dflt2 t2 st2)))) res ps
       = ps\<lparr>ps_error := ''Synced recently, try again in a moment'', ps_syncing := False\<rparr>"
proof -
  have last: "ss_last_synced st2 uid = Some t1"
    using sync_POST_success [OF assms(3,4,1)] assms(5) by simp
  have "t2 - t1 < cooldown" using assms(7) by simp
  then have limited: "sync_POST cooldown w2 fetch2 dflt2 t2 st2
       = (\<lparr>status_code = 429, payload = ErrorBody ''Synced recently''\<rparr>, st2)"
    using sync_POST_limited [OF assms(2) last] by simp
  then show ?thesis by (simp add: handleSync_def)
qed

theorem second_sync_within_cooldown_rejected_witness:
  "status_code (fst (sync_POST 60000 (signed_in ''u1'' None) (\<lambda>uid. Inr [])
       (sample_row [] [] 0 False) 1000 \<lparr>ss_events = [], ss_last_synced = (\<lambda>uid. None)\<rparr>)) = 200
   \<and> status_code (fst (sync_POST 60000 (signed_in ''u1'' None) (\<lambda>uid. Inl NonError)
       (sample_row [] [] 0 False) 30000
       (snd (sync_POST 60000 (signed_in ''u1'' None) (\<lambda>uid. Inr [])
          (sample_row [] [] 0 False) 1000
          \<lparr>ss_events = [], ss_last_synced = (\<lambda>uid. None)\<rparr>)))) = 429
   \<and> ss_events (snd (sync_POST 60000 (signed_in ''u1'' None) (\<lambda>uid. Inl NonError)
       (sample_row [] [] 0 False) 30000
       (snd (sync_POST 60000 (signed_in ''u1'' None) (\<lambda>uid. Inr [])
          (sample_row [] [] 0 False) 1000
          \<lparr>ss_events = [], ss_last_synced = (\<lambda>uid. None)\<rparr>)))) = []"
proof -
  let ?w = "signed_in ''u1'' None"
  let ?st0 = "\<lparr>ss_events = [], ss_last_synced = (\<lambda>uid :: string. None :: timestamp option)\<rparr>"
  let ?first = "sync_POST 60000 ?w (\<lambda>uid. Inr []) (sample_row [] [] 0 False) 1000 ?st0"
  have u: "requester ?w = Some ''u1''"
    by (simp add: requester_def signed_in_def authenticate_def)
  have first: "?first = (fst ?first, snd ?first)"
    by simp
  have ok: "status_code (fst ?first) = 200"
    by (simp add: sync_POST_def signed_in_def authenticate_def within_cooldown_def)
  have ev: "ss_events (snd ?first) = []"
    by (simp add: sync_POST_def signed_in_def authenticate_def within_cooldown_def)
  have t: "(1000 :: int) \<le> 30000" "(30000 :: int) < 1000 + 60000"
    by simp_all
  have "sync_POST 60000 ?w (\<lambda>uid. Inl NonError) (sample_row [] [] 0 False) 30000 (snd ?first)
       = (\<lparr>status_code = 429, payload = ErrorBody ''Synced recently''\<rparr>, snd ?first)"
    using second_sync_within_cooldown_rejected [OF u u first ok refl t] by blast
  then show ?thesis using ok ev by simp
qed

end
